theory Spec2Isabelle
  imports Complex_Main "HOL-Library.Word" "HOL-Library.AList"
begin

section \<open>Data model of the recognition service\<close>

text \<open>
  The embedding follows \<^verbatim>\<open>src/api_app/recognition_service.py\<close> (class
  \<^verbatim>\<open>ReconocimientoService\<close>). Images are lists of pixel rows; a pixel is an unsigned
  byte as in a numpy \<^verbatim>\<open>uint8\<close> array. A face box is the tuple \<^verbatim>\<open>(x, y, w, h)\<close> that
  \<^verbatim>\<open>detectMultiScale\<close> returns: four non-negative integers. A text is the list of the bytes
  of its UTF-8 encoding, which is what the file system counts in a name; the separators that
  the code looks for (\<^verbatim>\<open>/\<close>, \<^verbatim>\<open>.\<close>, \<^verbatim>\<open>,\<close>) are single bytes that occur in no longer
  sequence.
\<close>

type_synonym pixel = "8 word"
type_synonym gray = "pixel list list"
type_synonym frame = "(pixel \<times> pixel \<times> pixel) list list"
type_synonym caja = "nat \<times> nat \<times> nat \<times> nat"

text \<open>Python exceptions that the modelled code can raise or let through.\<close>

datatype excepcion =
    ValueError | KeyError | IndexError | BinasciiError | Cv2Error
  | NotADirectoryError | FileExistsError | OSError | FirebaseError

datatype interpolacion = INTER_NEAREST | INTER_LINEAR | INTER_CUBIC

text \<open>
  The result dictionaries of \<^verbatim>\<open>reconocer_rostro\<close>: \<^verbatim>\<open>{"estado": "sin_rostro"}\<close>,
  \<^verbatim>\<open>{"estado": "reconocido", "estudiante", "confianza", "box"}\<close> and
  \<^verbatim>\<open>{"estado": "desconocido", "confianza", "box"}\<close>.
\<close>

datatype resultado =
    SinRostro
  | Reconocido string real "nat list"
  | Desconocido real "nat list"

text \<open>
  The libraries the service calls (OpenCV, base64, the attendance ledger) and the Django
  settings it reads are outside the repository's code. They enter the model as one record of
  functions and constants, so every theorem below holds for each behaviour of them. A call
  that can raise returns \<open>Inl\<close> of the exception; a classifier call that raises leaves the
  classifier object as it was. \<open>lbph_write\<close> says whether writing a classifier to the model
  path raises; \<open>codec_jpg\<close> is what \<^verbatim>\<open>cv2.imread\<close> later reads back from a patch saved as
  JPEG. \<open>imdecode\<close> raises on an empty buffer and returns \<^verbatim>\<open>None\<close> for bytes that are no
  image. \<open>os_mkdir\<close> is the answer of the operating system to the creation of a directory of
  that name in the data directory (\<open>None\<close> when it creates it), and \<open>imwrite_ok\<close> says whether
  \<^verbatim>\<open>cv2.imwrite\<close> manages to write the file of that directory and name; when it does not, it
  returns \<^verbatim>\<open>False\<close> without raising, and the code does not look at what it returns.
\<close>

record 'c entorno =
  b64decode :: "string \<Rightarrow> excepcion + pixel list"
  imdecode :: "pixel list \<Rightarrow> excepcion + frame option"
  cvtColor :: "frame \<Rightarrow> gray"
  detectMultiScale :: "gray \<Rightarrow> caja list"
  cv_resize :: "gray \<Rightarrow> nat \<times> nat \<Rightarrow> interpolacion \<Rightarrow> excepcion + gray"
  codec_jpg :: "gray \<Rightarrow> gray"
  os_mkdir :: "string \<Rightarrow> excepcion option"
  imwrite_ok :: "string \<Rightarrow> string \<Rightarrow> bool"
  lbph_create :: "'c"
  lbph_predict :: "'c \<Rightarrow> gray \<Rightarrow> excepcion + (int \<times> real)"
  lbph_update :: "'c \<Rightarrow> gray list \<Rightarrow> int list \<Rightarrow> excepcion + 'c"
  lbph_train :: "'c \<Rightarrow> gray list \<Rightarrow> int list \<Rightarrow> excepcion + 'c"
  lbph_write :: "'c \<Rightarrow> excepcion option"
  registrar_asistencia :: "string \<Rightarrow> excepcion option"
  cfg_confianza_threshold :: "real"
  cfg_duracion_reconocimiento :: "real"

text \<open>
  The attributes of the singleton service object. \<open>label_dict\<close> is a Python dict, kept in
  insertion order as an association list; \<open>tiempos_reconocimiento\<close> maps a name to the clock
  reading of its first recognition. Clock readings (\<^verbatim>\<open>time.time()\<close>) and classifier
  distances are numbers of which the code uses the order and the difference only.
\<close>

record 'c servicio =
  face_recognizer :: "'c"
  image_paths :: "string list"
  label_dict :: "(string \<times> int) list"
  next_label :: "int"
  estudiantes_reconocidos :: "string set"
  tiempos_reconocimiento :: "string \<rightharpoonup> real"
  duracion_reconocimiento :: "real"

subsection \<open>Decoding and detection\<close>

text \<open>
  \<^verbatim>\<open>re.sub(r'^data:image/.+;base64,', '', data_url)\<close>: when the text starts with
  \<^verbatim>\<open>data:image/\<close>, the greedy \<^verbatim>\<open>.+\<close> takes the longest run of at least one character
  without a newline that is followed by \<^verbatim>\<open>;base64,\<close>, and the whole prefix is removed.
\<close>

definition quitar_cabecera :: "string \<Rightarrow> string" where
  "quitar_cabecera data_url =
     (if take 11 data_url = ''data:image/'' then
        (let r = drop 11 data_url;
             ks = filter (\<lambda>k. take 8 (drop k r) = '';base64,'' \<and> CHR 0x0A \<notin> set (take k r))
                    [1..<length r]
         in if ks = [] then data_url else drop (last ks + 8) r)
      else data_url)"

definition decode_image :: "'c entorno \<Rightarrow> string \<Rightarrow> excepcion + frame option" where
  "decode_image env data_url =
     (case b64decode env (quitar_cabecera data_url) of
        Inl e \<Rightarrow> Inl e
      | Inr img_bytes \<Rightarrow> imdecode env img_bytes)"

text \<open>
  \<^verbatim>\<open>detectar_rostro(frame)\<close>. The frame is \<^verbatim>\<open>None\<close> when \<^verbatim>\<open>cv2.imdecode\<close> found no
  image in the bytes, and \<^verbatim>\<open>cv2.cvtColor(None, ...)\<close> raises.
\<close>

definition detectar_rostro :: "'c entorno \<Rightarrow> frame option \<Rightarrow> excepcion + (gray \<times> caja list)" where
  "detectar_rostro env frame =
     (case frame of
        None \<Rightarrow> Inl Cv2Error
      | Some f \<Rightarrow> (let gray = cvtColor env f; faces = detectMultiScale env gray
                  in Inr (gray, faces)))"

subsection \<open>Normalisation of the first face\<close>

text \<open>The numpy slice \<^verbatim>\<open>gray[y:y+h, x:x+w]\<close>; a slice is clipped to the array.\<close>

definition recortar :: "gray \<Rightarrow> caja \<Rightarrow> gray" where
  "recortar gray c =
     (case c of (x, y, w, h) \<Rightarrow> map (\<lambda>fila. take w (drop x fila)) (take h (drop y gray)))"

text \<open>Lines 104-106 of \<^verbatim>\<open>reconocer_rostro\<close>.\<close>

definition rostro_reconocimiento :: "'c entorno \<Rightarrow> gray \<Rightarrow> caja \<Rightarrow> excepcion + gray" where
  "rostro_reconocimiento env gray c =
     (let rostro = recortar gray c
      in cv_resize env rostro (150, 150) INTER_CUBIC)"

text \<open>Lines 169-171 of \<^verbatim>\<open>guardar_foto_registro\<close>.\<close>

definition rostro_registro :: "'c entorno \<Rightarrow> gray \<Rightarrow> caja \<Rightarrow> excepcion + gray" where
  "rostro_registro env gray c =
     (let rostro = recortar gray c
      in cv_resize env rostro (150, 150) INTER_CUBIC)"

subsection \<open>Recognition and the once-only attendance registration\<close>

text \<open>
  \<^verbatim>\<open>self.image_paths[label]\<close>: an index below zero is taken from the end of the list, and
  one outside the list raises \<^verbatim>\<open>IndexError\<close>.
\<close>

definition py_index :: "'a list \<Rightarrow> int \<Rightarrow> excepcion + 'a" where
  "py_index xs i =
     (if 0 \<le> i \<and> i < int (length xs) then Inr (xs ! nat i)
      else if i < 0 \<and> - int (length xs) \<le> i then Inr (xs ! nat (int (length xs) + i))
      else Inl IndexError)"

text \<open>
  Lines 116-122: the block under \<^verbatim>\<open># Logica de registro unico con tiempo\<close>. It returns the
  exception that \<^verbatim>\<open>registrar_asistencia\<close> raised, if any, the service after the block, and
  the names with which the attendance notifier was called.
\<close>

definition registro_unico ::
  "'c entorno \<Rightarrow> 'c servicio \<Rightarrow> string \<Rightarrow> real \<Rightarrow> excepcion option \<times> 'c servicio \<times> string list" where
  "registro_unico env s nombre now =
     (case tiempos_reconocimiento s nombre of
        None \<Rightarrow>
          (None, s\<lparr>tiempos_reconocimiento := (tiempos_reconocimiento s)(nombre \<mapsto> now)\<rparr>, [])
      | Some t0 \<Rightarrow>
          if now - t0 \<ge> duracion_reconocimiento s then
            (if nombre \<notin> estudiantes_reconocidos s then
               (registrar_asistencia env nombre,
                s\<lparr>estudiantes_reconocidos := insert nombre (estudiantes_reconocidos s)\<rparr>,
                [nombre])
             else (None, s, []))
          else (None, s, []))"

text \<open>
  \<^verbatim>\<open>reconocer_rostro(image_data)\<close>, with the clock reading of the call as \<open>now\<close>. The
  result is the returned dictionary or the exception that escapes, the service object after
  the call, and the notifier calls made.
\<close>

definition reconocer_rostro ::
  "'c entorno \<Rightarrow> 'c servicio \<Rightarrow> string \<Rightarrow> real
     \<Rightarrow> (excepcion + resultado) \<times> 'c servicio \<times> string list" where
  "reconocer_rostro env s image_data now =
     (case decode_image env image_data of
        Inl e \<Rightarrow> (Inl e, s, [])
      | Inr frame \<Rightarrow>
     (case detectar_rostro env frame of
        Inl e \<Rightarrow> (Inl e, s, [])
      | Inr (gray, faces) \<Rightarrow>
     (case faces of
        [] \<Rightarrow> (Inr SinRostro, s, [])
      | (x, y, w, h) # _ \<Rightarrow>
     (case rostro_reconocimiento env gray (x, y, w, h) of
        Inl e \<Rightarrow> (Inl e, s, [])
      | Inr rostro \<Rightarrow>
     (case lbph_predict env (face_recognizer s) rostro of
        Inl e \<Rightarrow> (Inl e, s, [])
      | Inr (label, confianza) \<Rightarrow>
          (let box = [x, y, w, h] in
           if confianza < cfg_confianza_threshold env \<and> label < int (length (image_paths s)) then
             (case py_index (image_paths s) label of
                Inl e \<Rightarrow> (Inl e, s, [])
              | Inr nombre \<Rightarrow>
                  (case registro_unico env s nombre now of
                     (Some e, s', llamadas) \<Rightarrow> (Inl e, s', llamadas)
                   | (None, s', llamadas) \<Rightarrow>
                       (Inr (Reconocido nombre confianza box), s', llamadas)))
           else (Inr (Desconocido confianza box), s, [])))))))"


definition reset_reconocimientos :: "'c servicio \<Rightarrow> 'c servicio" where
  "reset_reconocimientos s =
     s\<lparr>estudiantes_reconocidos := {}, tiempos_reconocimiento := Map.empty\<rparr>"

text \<open>
  A session: recognition requests one after another on the same service object. Each request
  comes with the behaviour of the environment during it, its image and its clock reading. The
  value is the list of all notifier calls, in order.
\<close>

fun sesion :: "'c servicio \<Rightarrow> ('c entorno \<times> string \<times> real) list \<Rightarrow> string list" where
  "sesion s [] = []"
| "sesion s ((env, image_data, now) # resto) =
     (case reconocer_rostro env s image_data now of
        (r, s', llamadas) \<Rightarrow> llamadas @ sesion s' resto)"

section \<open>The holding areas and the training operations\<close>

text \<open>
  The entries of the data directory (\<^verbatim>\<open>settings.DATA_PATH\<close>), in the order in which
  \<^verbatim>\<open>os.listdir\<close> enumerates them. An entry is a plain file or the holding directory of a
  student with its files; a file carries what \<^verbatim>\<open>cv2.imread(..., IMREAD_GRAYSCALE)\<close> returns
  for it, \<open>None\<close> when it is no readable image. \<^verbatim>\<open>os.path.join(data_path, nombre)\<close> denotes
  the entry called \<open>nombre\<close> when the name is a single path component; the training operations
  are modelled for such names, and the files of a holding directory are plain files. \<open>modelo\<close> is the artifact at \<^verbatim>\<open>settings.MODEL_PATH\<close>: the classifier last written,
  if any.
\<close>

datatype nodo = Archivo "gray option" | Carpeta "(string \<times> gray option) list"

type_synonym directorio = "(string \<times> nodo) list"

record 'c mundo =
  datos :: "directorio"
  modelo :: "'c option"

text \<open>A directory never lists a name twice, at either level.\<close>

fun nodo_ok :: "nodo \<Rightarrow> bool" where
  "nodo_ok (Archivo a) = True"
| "nodo_ok (Carpeta fs) = distinct (map fst fs)"

definition directorio_ok :: "directorio \<Rightarrow> bool" where
  "directorio_ok d = (distinct (map fst d) \<and> list_all (\<lambda>e. nodo_ok (snd e)) d)"

text \<open>The messages of the training results, and the result dictionaries themselves.\<close>

datatype mensaje =
    No_existe_la_carpeta_del_estudiante
  | No_hay_imagenes_para_entrenar
  | No_hay_personas_para_entrenar
  | No_se_encontraron_imagenes

datatype res_entreno =
    Fallo mensaje
  | Modelo_entrenado nat
  | Modelo_entrenado_completo nat nat

fun ok :: "res_entreno \<Rightarrow> bool" where
  "ok (Fallo m) = False"
| "ok (Modelo_entrenado imagenes_procesadas) = True"
| "ok (Modelo_entrenado_completo personas imagenes_totales) = True"

text \<open>The files of a directory that \<^verbatim>\<open>cv2.imread\<close> can read, in listing order.\<close>

fun legibles :: "(string \<times> gray option) list \<Rightarrow> (string \<times> gray) list" where
  "legibles [] = []"
| "legibles ((filename, None) # r) = legibles r"
| "legibles ((filename, Some img) # r) = (filename, img) # legibles r"

text \<open>Lines 196-199: \<^verbatim>\<open># Asignar etiqueta si no existe\<close>.\<close>

definition asignar_etiqueta :: "'c servicio \<Rightarrow> string \<Rightarrow> 'c servicio" where
  "asignar_etiqueta s estudiante =
     (if map_of (label_dict s) estudiante = None then
        s\<lparr>label_dict := AList.update estudiante (next_label s) (label_dict s),
          image_paths := image_paths s @ [estudiante],
          next_label := next_label s + 1\<rparr>
      else s)"

text \<open>
  Lines 228-236: the processed files are removed, then \<^verbatim>\<open>os.rmdir\<close> removes the directory
  when nothing is left in it; its failure on a non-empty directory is swallowed.
\<close>

definition borrar_procesadas :: "directorio \<Rightarrow> string \<Rightarrow> directorio" where
  "borrar_procesadas d estudiante =
     (case map_of d estudiante of
        Some (Carpeta fs) \<Rightarrow>
          (let quedan = filter (\<lambda>f. snd f = None) fs
           in if quedan = [] then AList.delete estudiante d
              else AList.update estudiante (Carpeta quedan) d)
      | _ \<Rightarrow> d)"

text \<open>
  Lines 220-226: \<^verbatim>\<open>try: update; write  except: train; write\<close>. The bare \<^verbatim>\<open>except\<close>
  catches whatever \<^verbatim>\<open>update\<close> or the first \<^verbatim>\<open>write\<close> raises. The value is the exception
  that escapes the block, if any, the classifier object and the artifact after it.
\<close>

definition entrenar_o_actualizar ::
  "'c entorno \<Rightarrow> 'c \<Rightarrow> 'c option \<Rightarrow> gray list \<Rightarrow> int list \<Rightarrow> excepcion option \<times> 'c \<times> 'c option" where
  "entrenar_o_actualizar env c art faces_data labels =
     (let respaldo = (\<lambda>c'.
            case lbph_train env c' faces_data labels of
              Inl e \<Rightarrow> (Some e, c', art)
            | Inr c2 \<Rightarrow>
                (case lbph_write env c2 of
                   Some e \<Rightarrow> (Some e, c2, art)
                 | None \<Rightarrow> (None, c2, Some c2)))
      in case lbph_update env c faces_data labels of
           Inl e \<Rightarrow> respaldo c
         | Inr c1 \<Rightarrow>
             (case lbph_write env c1 of
                Some e \<Rightarrow> respaldo c1
              | None \<Rightarrow> (None, c1, Some c1)))"

text \<open>
  \<^verbatim>\<open>entrenar_incremental(estudiante)\<close>. The result is the returned dictionary or the
  exception that escapes, with the service object and the world as the call leaves them.
\<close>

definition entrenar_incremental ::
  "'c entorno \<Rightarrow> 'c servicio \<Rightarrow> 'c mundo \<Rightarrow> string
     \<Rightarrow> (excepcion + res_entreno) \<times> 'c servicio \<times> 'c mundo" where
  "entrenar_incremental env s m estudiante =
     (case map_of (datos m) estudiante of
        None \<Rightarrow> (Inr (Fallo No_existe_la_carpeta_del_estudiante), s, m)
      | Some nodo \<Rightarrow>
     (let s1 = asignar_etiqueta s estudiante in
      case map_of (label_dict s1) estudiante of
        None \<Rightarrow> (Inl KeyError, s1, m)
      | Some label \<Rightarrow>
     (case nodo of
        Archivo a \<Rightarrow> (Inl NotADirectoryError, s1, m)
      | Carpeta fs \<Rightarrow>
     (let rutas_procesadas = legibles fs;
          faces_data = map snd rutas_procesadas;
          labels = map (\<lambda>r. label) rutas_procesadas
      in if faces_data = [] then (Inr (Fallo No_hay_imagenes_para_entrenar), s1, m)
         else
           (case entrenar_o_actualizar env (face_recognizer s1) (modelo m) faces_data labels of
              (Some e, c, art) \<Rightarrow> (Inl e, s1\<lparr>face_recognizer := c\<rparr>, m\<lparr>modelo := art\<rparr>)
            | (None, c, art) \<Rightarrow>
                (Inr (Modelo_entrenado (length faces_data)),
                 s1\<lparr>face_recognizer := c\<rparr>,
                 m\<lparr>modelo := art, datos := borrar_procesadas (datos m) estudiante\<rparr>))))))"

text \<open>Lines 256-257: the entries of the data directory that are directories.\<close>

fun personas_en :: "directorio \<Rightarrow> string list" where
  "personas_en [] = []"
| "personas_en ((d, Archivo a) # r) = personas_en r"
| "personas_en ((d, Carpeta fs) # r) = d # personas_en r"

definition listdir_persona :: "directorio \<Rightarrow> string \<Rightarrow> (string \<times> gray option) list" where
  "listdir_persona d name_dir =
     (case map_of d name_dir of Some (Carpeta fs) \<Rightarrow> fs | _ \<Rightarrow> [])"

text \<open>
  Lines 262-276: the loop over \<^verbatim>\<open>people_list\<close>. \<^verbatim>\<open>label\<close> grows by one after each
  directory, whether or not an image of it was read.
\<close>

fun cargar_todas :: "directorio \<Rightarrow> string list \<Rightarrow> int \<Rightarrow> (gray \<times> int) list" where
  "cargar_todas d [] label = []"
| "cargar_todas d (name_dir # r) label =
     map (\<lambda>f. (snd f, label)) (legibles (listdir_persona d name_dir))
       @ cargar_todas d r (label + 1)"

text \<open>The comprehension \<^verbatim>\<open>{name: idx for idx, name in enumerate(people_list)}\<close>.\<close>

definition dict_enumerate :: "string list \<Rightarrow> (string \<times> int) list" where
  "dict_enumerate names =
     fold (\<lambda>p dic. AList.update (snd p) (int (fst p)) dic) (enumerate 0 names) []"

text \<open>Lines 292-296: every file of every listed directory is removed, then the directory.\<close>

definition borrar_personas :: "directorio \<Rightarrow> string list \<Rightarrow> directorio" where
  "borrar_personas d people_list = fold AList.delete people_list d"

definition entrenar_modelo_completo ::
  "'c entorno \<Rightarrow> 'c servicio \<Rightarrow> 'c mundo \<Rightarrow> (excepcion + res_entreno) \<times> 'c servicio \<times> 'c mundo" where
  "entrenar_modelo_completo env s m =
     (let people_list = personas_en (datos m) in
      if people_list = [] then (Inr (Fallo No_hay_personas_para_entrenar), s, m)
      else
        (let cargadas = cargar_todas (datos m) people_list 0;
             faces_data = map fst cargadas;
             labels = map snd cargadas
         in if faces_data = [] then (Inr (Fallo No_se_encontraron_imagenes), s, m)
            else
              (let c0 = lbph_create env in
               case lbph_train env c0 faces_data labels of
                 Inl e \<Rightarrow> (Inl e, s\<lparr>face_recognizer := c0\<rparr>, m)
               | Inr c1 \<Rightarrow>
                   (let s' = s\<lparr>face_recognizer := c1,
                               image_paths := people_list,
                               label_dict := dict_enumerate people_list,
                               next_label := int (length people_list)\<rparr>
                    in case lbph_write env c1 of
                         Some e \<Rightarrow> (Inl e, s', m)
                       | None \<Rightarrow>
                           (Inr (Modelo_entrenado_completo (length people_list) (length faces_data)),
                            s',
                            m\<lparr>modelo := Some c1,
                              datos := borrar_personas (datos m) people_list\<rparr>)))))"

text \<open>
  \<^verbatim>\<open>_initialize\<close>: with an artifact at the model path the classifier is read from it and
  the registry is the listing of the data directory; without one everything starts empty.
\<close>

definition inicializar :: "'c entorno \<Rightarrow> 'c mundo \<Rightarrow> 'c servicio" where
  "inicializar env m =
     (case modelo m of
        Some c \<Rightarrow>
          \<lparr>face_recognizer = c,
           image_paths = map fst (datos m),
           label_dict = dict_enumerate (map fst (datos m)),
           next_label = int (length (map fst (datos m))),
           estudiantes_reconocidos = {},
           tiempos_reconocimiento = Map.empty,
           duracion_reconocimiento = cfg_duracion_reconocimiento env\<rparr>
      | None \<Rightarrow>
          \<lparr>face_recognizer = lbph_create env,
           image_paths = [],
           label_dict = [],
           next_label = 0,
           estudiantes_reconocidos = {},
           tiempos_reconocimiento = Map.empty,
           duracion_reconocimiento = cfg_duracion_reconocimiento env\<rparr>)"

section \<open>Enrolment of a photo\<close>

text \<open>
  \<^verbatim>\<open>os.path.basename\<close> and the root of \<^verbatim>\<open>os.path.splitext\<close> on POSIX paths: the part
  after the last separator, and the path without its extension. The extension starts at the
  last dot of the last component, unless only dots come before it there.
\<close>

definition basename :: "string \<Rightarrow> string" where
  "basename p = rev (takeWhile (\<lambda>c. c \<noteq> CHR ''/'') (rev p))"

definition splitext_root :: "string \<Rightarrow> string" where
  "splitext_root p =
     (let cola = basename p;
          cabeza = take (length p - length cola) p;
          antes = rev (tl (dropWhile (\<lambda>c. c \<noteq> CHR ''.'') (rev cola)))
      in if CHR ''.'' \<in> set cola \<and> filter (\<lambda>c. c \<noteq> CHR ''.'') antes \<noteq> []
         then cabeza @ antes else p)"

text \<open>\<^verbatim>\<open>foto_base64.split(',', 1)\<close>: at most one split, at the first comma.\<close>

definition split_coma :: "string \<Rightarrow> string list" where
  "split_coma s =
     (let a = takeWhile (\<lambda>c. c \<noteq> CHR '','') s; r = dropWhile (\<lambda>c. c \<noteq> CHR '','') s
      in if r = [] then [a] else [a, tl r])"

text \<open>
  Lines 154-160: the \<^verbatim>\<open>try\<close> block that decodes the photo. Unpacking a list of one element
  into \<^verbatim>\<open>header, encoded\<close> raises \<^verbatim>\<open>ValueError\<close>; every exception of the block, also
  the one of \<^verbatim>\<open>cv2.imdecode\<close> on an empty buffer, is caught and becomes the failure result.
\<close>

definition decodificar_foto :: "'c entorno \<Rightarrow> string \<Rightarrow> excepcion + frame option" where
  "decodificar_foto env foto_base64 =
     (case split_coma foto_base64 of
        [header, encoded] \<Rightarrow>
          (case b64decode env encoded of
             Inl e \<Rightarrow> Inl e
           | Inr img_bytes \<Rightarrow> imdecode env img_bytes)
      | _ \<Rightarrow> Inl ValueError)"

text \<open>
  The sanitised name can be empty (from \<^verbatim>\<open>'dir/'\<close>) or one of the dot names. Joined to the
  data path it is then the data directory itself or its parent, not an entry of the listing.
\<close>

definition nombre_especial :: "string \<Rightarrow> bool" where
  "nombre_especial nombre = (nombre = [] \<or> nombre = ''.'' \<or> nombre = ''..'')"

text \<open>
  \<^verbatim>\<open>os.makedirs(person_path, exist_ok=True)\<close>. A name with a NUL character raises
  \<^verbatim>\<open>ValueError\<close> before the operating system is asked. For the empty name and the dot names
  the path exists already and nothing is created. A name of more than 255 bytes raises
  \<^verbatim>\<open>OSError\<close> (file name too long). Otherwise an existing directory is left alone, a plain
  file of that name raises, and a new name is created as an empty directory at the end of the
  listing unless the operating system refuses.
\<close>

definition makedirs :: "'c entorno \<Rightarrow> directorio \<Rightarrow> string \<Rightarrow> excepcion + directorio" where
  "makedirs env d nombre =
     (if CHR 0x00 \<in> set nombre then Inl ValueError
      else if nombre_especial nombre then Inr d
      else if 255 < length nombre then Inl OSError
      else case map_of d nombre of
             Some (Carpeta fs) \<Rightarrow> Inr d
           | Some (Archivo a) \<Rightarrow> Inl FileExistsError
           | None \<Rightarrow>
               (case os_mkdir env nombre of
                  Some e \<Rightarrow> Inl e
                | None \<Rightarrow> Inr (d @ [(nombre, Carpeta [])])))"


text \<open>\<^verbatim>\<open>int(time.time() * 1000)\<close> and its decimal text in \<^verbatim>\<open>f'rostro_{timestamp}.jpg'\<close>.\<close>

definition py_int :: "real \<Rightarrow> int" where
  "py_int x = (if 0 \<le> x then \<lfloor>x\<rfloor> else \<lceil>x\<rceil>)"

fun str_nat :: "nat \<Rightarrow> string" where
  "str_nat n =
     (if n < 10 then [''0123456789'' ! n]
      else str_nat (n div 10) @ [''0123456789'' ! (n mod 10)])"

declare str_nat.simps [simp del]

definition str_int :: "int \<Rightarrow> string" where
  "str_int i = (if i < 0 then CHR ''-'' # str_nat (nat (- i)) else str_nat (nat i))"

text \<open>
  \<^verbatim>\<open>cv2.imwrite(ruta, rostro)\<close> with \<^verbatim>\<open>ruta = os.path.join(person_path, filename)\<close>. In
  the directory of a student the file is added or replaced. With the empty name or \<^verbatim>\<open>'.'\<close> the
  file lands in the data directory itself, unless a directory of that name is in the way;
  with \<^verbatim>\<open>'..'\<close> it lands outside the data directory. Nothing is written when
  \<^verbatim>\<open>cv2.imwrite\<close> fails.
\<close>

definition imwrite :: "'c entorno \<Rightarrow> directorio \<Rightarrow> string \<Rightarrow> string \<Rightarrow> gray \<Rightarrow> directorio" where
  "imwrite env d nombre filename rostro =
     (if \<not> imwrite_ok env nombre filename then d
      else if nombre = [] \<or> nombre = ''.'' then
        (case map_of d filename of
           Some (Carpeta fs) \<Rightarrow> d
         | _ \<Rightarrow> AList.update filename (Archivo (Some (codec_jpg env rostro))) d)
      else if nombre = ''..'' then d
      else case map_of d nombre of
             Some (Carpeta fs) \<Rightarrow>
               AList.update nombre
                 (Carpeta (AList.update filename (Some (codec_jpg env rostro)) fs)) d
           | _ \<Rightarrow> d)"

datatype res_foto =
    Error_decodificando_imagen excepcion
  | No_face
  | Guardado string string


text \<open>
  \<^verbatim>\<open>guardar_foto_registro(estudiante, foto_base64)\<close>, with the clock reading of the call.
  \<open>Guardado\<close> carries the directory and the file name of \<^verbatim>\<open>ruta\<close>.
\<close>

definition guardar_foto_registro ::
  "'c entorno \<Rightarrow> 'c mundo \<Rightarrow> string \<Rightarrow> string \<Rightarrow> real \<Rightarrow> (excepcion + res_foto) \<times> 'c mundo" where
  "guardar_foto_registro env m estudiante0 foto_base64 now =
     (let estudiante = splitext_root (basename estudiante0) in
      case makedirs env (datos m) estudiante of
        Inl e \<Rightarrow> (Inl e, m)
      | Inr d1 \<Rightarrow>
     (let m1 = m\<lparr>datos := d1\<rparr> in
      case decodificar_foto env foto_base64 of
        Inl e \<Rightarrow> (Inr (Error_decodificando_imagen e), m1)
      | Inr img \<Rightarrow>
     (case detectar_rostro env img of
        Inl e \<Rightarrow> (Inl e, m1)
      | Inr (gray, faces) \<Rightarrow>
     (case faces of
        [] \<Rightarrow> (Inr No_face, m1)
      | (x, y, w, h) # _ \<Rightarrow>
     (case rostro_registro env gray (x, y, w, h) of
        Inl e \<Rightarrow> (Inl e, m1)
      | Inr rostro \<Rightarrow>
          (let timestamp = py_int (now * 1000);
               filename = ''rostro_'' @ str_int timestamp @ ''.jpg''
           in (Inr (Guardado estudiante filename),
               m1\<lparr>datos := imwrite env d1 estudiante filename rostro\<rparr>)))))))"

section \<open>Sequences of enrolment and training requests\<close>

datatype peticion =
    Guardar_foto string string real
  | Entrenar_incremental string
  | Entrenar_completo

fun atender :: "'c entorno \<Rightarrow> 'c servicio \<times> 'c mundo \<Rightarrow> peticion \<Rightarrow> 'c servicio \<times> 'c mundo" where
  "atender env (s, m) (Guardar_foto estudiante foto now) =
     (s, snd (guardar_foto_registro env m estudiante foto now))"
| "atender env (s, m) (Entrenar_incremental estudiante) =
     snd (entrenar_incremental env s m estudiante)"
| "atender env (s, m) Entrenar_completo =
     snd (entrenar_modelo_completo env s m)"

fun atender_todas ::
  "'c servicio \<times> 'c mundo \<Rightarrow> ('c entorno \<times> peticion) list \<Rightarrow> 'c servicio \<times> 'c mundo" where
  "atender_todas sm [] = sm"
| "atender_todas sm ((env, p) # resto) = atender_todas (atender env sm p) resto"

section \<open>A deterministic environment for concrete runs\<close>

text \<open>
  A test double of the environment, for evaluating the code on concrete inputs. The payload
  text is taken as the bytes of a one-row image, with \<^verbatim>\<open>'='\<close> as the one payload that is no
  base64 text and a first byte 33 for bytes that are no image; the operating system creates
  every directory and writes every file; a face is found at the first pixel when it is not
  zero; resizing fills the requested size with the first pixel of the crop and, as OpenCV
  does, raises on an empty crop. The classifier remembers its training pairs: \<open>update\<close>
  raises without prior state, \<open>train\<close> forgets it, \<open>predict\<close> answers the label of the first
  equal patch at distance 0, and label \<open>-1\<close> at a large distance when there is none.
\<close>

type_synonym memoria = "(gray \<times> int) list"

definition rellenar :: "gray \<Rightarrow> nat \<times> nat \<Rightarrow> interpolacion \<Rightarrow> excepcion + gray" where
  "rellenar g dsize i =
     (case g of
        (p # fila) # filas \<Rightarrow> Inr (replicate (snd dsize) (replicate (fst dsize) p))
      | _ \<Rightarrow> Inl Cv2Error)"

definition predecir :: "memoria \<Rightarrow> gray \<Rightarrow> excepcion + (int \<times> real)" where
  "predecir mem rostro =
     (if mem = [] then Inl Cv2Error
      else case filter (\<lambda>e. fst e = rostro) mem of
             [] \<Rightarrow> Inr (- 1, 1000)
           | e # _ \<Rightarrow> Inr (snd e, 0))"

definition entorno_prueba :: "memoria entorno" where
  "entorno_prueba =
     \<lparr>b64decode = (\<lambda>s. if s = ''='' then Inl BinasciiError
                       else Inr (map (\<lambda>c. of_nat (of_char c)) s)),
      imdecode = (\<lambda>bs. case bs of
                           [] \<Rightarrow> Inl Cv2Error
                         | b # _ \<Rightarrow> if b = 33 then Inr None
                                    else Inr (Some [map (\<lambda>b. (b, b, b)) bs])),
      cvtColor = map (map fst),
      detectMultiScale = (\<lambda>g. case g of (p # fila) # filas \<Rightarrow> if p = 0 then [] else [(0, 0, 1, 1)]
                                | _ \<Rightarrow> []),
      cv_resize = rellenar,
      codec_jpg = (\<lambda>g. g),
      os_mkdir = (\<lambda>nombre. None),
      imwrite_ok = (\<lambda>nombre filename. True),
      lbph_create = [],
      lbph_predict = predecir,
      lbph_update = (\<lambda>mem faces labels. if mem = [] then Inl Cv2Error
                                        else Inr (mem @ zip faces labels)),
      lbph_train = (\<lambda>mem faces labels. Inr (zip faces labels)),
      lbph_write = (\<lambda>mem. None),
      registrar_asistencia = (\<lambda>nombre. None),
      cfg_confianza_threshold = 70,
      cfg_duracion_reconocimiento = 2\<rparr>"

definition parche :: "pixel \<Rightarrow> gray" where
  "parche p = replicate 150 (replicate 150 p)"

text \<open>A service whose classifier knows one student, \<open>ana\<close>, by the patch of byte 97.\<close>

definition servicio_ana :: "memoria servicio" where
  "servicio_ana =
     \<lparr>face_recognizer = [(parche 97, 0)],
      image_paths = [''ana''],
      label_dict = [(''ana'', 0)],
      next_label = 1,
      estudiantes_reconocidos = {},
      tiempos_reconocimiento = Map.empty,
      duracion_reconocimiento = 2\<rparr>"



text \<open>A world without holding areas and without a persisted model.\<close>

definition mundo_vacio :: "memoria mundo" where
  "mundo_vacio = \<lparr>datos = [], modelo = None\<rparr>"

section \<open>The registry invariant\<close>

text \<open>
  The identities are distinct, the keys of \<open>label_dict\<close> are the identities in the order of
  \<open>image_paths\<close>, their labels are \<open>0, 1, ..., n - 1\<close> in that order, and \<open>next_label\<close> is
  \<open>n\<close>, the number of identities.
\<close>

definition registro_ok :: "'c servicio \<Rightarrow> bool" where
  "registro_ok s =
     (distinct (image_paths s)
      \<and> map fst (label_dict s) = image_paths s
      \<and> map snd (label_dict s) = map int [0..<length (image_paths s)]
      \<and> next_label s = int (length (image_paths s)))"

definition estado_ok :: "'c servicio \<times> 'c mundo \<Rightarrow> bool" where
  "estado_ok sm = (registro_ok (fst sm) \<and> directorio_ok (datos (snd sm)))"

section \<open>Concrete worlds and services\<close>

text \<open>
  A data directory with two holding areas: one photo of \<open>ana\<close>, and an empty directory
  of \<open>bob\<close> (what a failed enrolment leaves behind). No model has been persisted.
\<close>

definition mundo_dos :: "memoria mundo" where
  "mundo_dos =
     \<lparr>datos = [(''ana'', Carpeta [(''rostro_1.jpg'', Some (parche 97))]), (''bob'', Carpeta [])],
      modelo = None\<rparr>"

text \<open>
  The service as \<^verbatim>\<open>_initialize\<close> leaves it when there is no persisted model.
\<close>

definition servicio_vacio :: "memoria servicio" where
  "servicio_vacio =
     \<lparr>face_recognizer = [],
      image_paths = [],
      label_dict = [],
      next_label = 0,
      estudiantes_reconocidos = {},
      tiempos_reconocimiento = Map.empty,
      duracion_reconocimiento = 2\<rparr>"

text \<open>
  A persisted model that knows \<open>ana\<close>, and one pending photo of \<open>bob\<close>.
\<close>

definition mundo_bob :: "memoria mundo" where
  "mundo_bob =
     \<lparr>datos = [(''bob'', Carpeta [(''rostro_2.jpg'', Some (parche 98))])],
      modelo = Some [(parche 97, 0)]\<rparr>"

text \<open>
  The test environment with a model path that has room for one training pair only: writing
  a larger classifier raises.
\<close>

definition entorno_disco_lleno :: "memoria entorno" where
  "entorno_disco_lleno =
     entorno_prueba\<lparr>lbph_write := (\<lambda>mem. if 1 < length mem then Some OSError else None)\<rparr>"

section \<open>Recognition: the shape of a call\<close>

text \<open>
  A call of \<open>reconocer_rostro\<close> either leaves the service untouched, calls no notifier and
  does not report a recognition, or it went through the once-only block for some name.
\<close>

lemma reconocer_casos:
  assumes "reconocer_rostro env s image_data now = (r, s', l)"
  shows "(s' = s \<and> l = [] \<and> (\<forall>n c b. r \<noteq> Inr (Reconocido n c b)))
     \<or> (\<exists>nombre confianza box eo. registro_unico env s nombre now = (eo, s', l)
        \<and> r = (case eo of Some e \<Rightarrow> Inl e | None \<Rightarrow> Inr (Reconocido nombre confianza box)))"
proof (cases "decode_image env image_data")
  case (Inl e)
  with assms show ?thesis by (auto simp add: reconocer_rostro_def)
next
  case (Inr frame)
  note d = this
  show ?thesis
  proof (cases "detectar_rostro env frame")
    case (Inl e)
    with assms d show ?thesis by (auto simp add: reconocer_rostro_def)
  next
    case (Inr gf)
    obtain gray faces where gf: "gf = (gray, faces)" by (cases gf)
    note t = Inr[unfolded gf]
    show ?thesis
    proof (cases faces)
      case Nil
      with assms d t show ?thesis by (auto simp add: reconocer_rostro_def)
    next
      case (Cons c resto)
      obtain x y w h where c: "c = (x, y, w, h)" by (cases c)
      note f = Cons[unfolded c]
      show ?thesis
      proof (cases "rostro_reconocimiento env gray (x, y, w, h)")
        case (Inl e)
        with assms d t f show ?thesis by (auto simp add: reconocer_rostro_def)
      next
        case (Inr rostro)
        note n = this
        show ?thesis
        proof (cases "lbph_predict env (face_recognizer s) rostro")
          case (Inl e)
          with assms d t f n show ?thesis by (auto simp add: reconocer_rostro_def)
        next
          case (Inr lc)
          obtain label confianza where lc: "lc = (label, confianza)" by (cases lc)
          note p = Inr[unfolded lc]
          show ?thesis
          proof (cases "confianza < cfg_confianza_threshold env \<and> label < int (length (image_paths s))")
            case False
            with assms d t f n p show ?thesis by (auto simp add: reconocer_rostro_def Let_def)
          next
            case True
            note u = this
            show ?thesis
            proof (cases "py_index (image_paths s) label")
              case (Inl e)
              with assms d t f n p u show ?thesis by (auto simp add: reconocer_rostro_def Let_def)
            next
              case (Inr nombre)
              obtain eo s1 l1 where ru: "registro_unico env s nombre now = (eo, s1, l1)"
                by (cases "registro_unico env s nombre now")
              with assms d t f n p u Inr have "s' = s1 \<and> l = l1 \<and>
                 r = (case eo of Some e \<Rightarrow> Inl e | None \<Rightarrow> Inr (Reconocido nombre confianza [x, y, w, h]))"
                by (cases eo) (auto simp add: reconocer_rostro_def Let_def)
              with ru show ?thesis by blast
            qed
          qed
        qed
      qed
    qed
  qed
qed

lemma registro_unico_llamadas:
  assumes "registro_unico env s nombre now = (eo, s', l)"
  shows "l = [] \<and> estudiantes_reconocidos s' = estudiantes_reconocidos s
         \<or> l = [nombre] \<and> nombre \<notin> estudiantes_reconocidos s
                 \<and> estudiantes_reconocidos s' = insert nombre (estudiantes_reconocidos s)"
  using assms unfolding registro_unico_def
  by (auto split: option.splits if_splits)

lemma reconocer_llamadas:
  assumes "reconocer_rostro env s image_data now = (r, s', llamadas)"
  shows "llamadas = [] \<and> estudiantes_reconocidos s' = estudiantes_reconocidos s
         \<or> (\<exists>n. llamadas = [n] \<and> n \<notin> estudiantes_reconocidos s
                 \<and> estudiantes_reconocidos s' = insert n (estudiantes_reconocidos s))"
  using reconocer_casos[OF assms] registro_unico_llamadas by blast

lemma reconocido_registro_unico:
  assumes "reconocer_rostro env s image_data now = (Inr (Reconocido nombre confianza box), s', llamadas)"
  shows "registro_unico env s nombre now = (None, s', llamadas)"
  using reconocer_casos[OF assms] by (auto split: option.splits)

lemma sesion_cuenta:
  "count_list (sesion s peticiones) nombre \<le> (if nombre \<in> estudiantes_reconocidos s then 0 else 1)"
proof (induction peticiones arbitrary: s)
  case Nil
  then show ?case by simp
next
  case (Cons p resto)
  obtain env image_data now where p: "p = (env, image_data, now)" by (cases p)
  obtain r s' llamadas where c: "reconocer_rostro env s image_data now = (r, s', llamadas)"
    by (cases "reconocer_rostro env s image_data now")
  have eq: "sesion s (p # resto) = llamadas @ sesion s' resto" by (simp add: p c)
  from reconocer_llamadas[OF c] show ?case
  proof
    assume a: "llamadas = [] \<and> estudiantes_reconocidos s' = estudiantes_reconocidos s"
    with Cons.IH[of s'] show ?thesis by (simp add: eq)
  next
    assume "\<exists>n. llamadas = [n] \<and> n \<notin> estudiantes_reconocidos s
                 \<and> estudiantes_reconocidos s' = insert n (estudiantes_reconocidos s)"
    then obtain n where n: "llamadas = [n]" "n \<notin> estudiantes_reconocidos s"
         "estudiantes_reconocidos s' = insert n (estudiantes_reconocidos s)" by blast
    with Cons.IH[of s'] show ?thesis by (cases "nombre = n") (simp_all add: eq)
  qed
qed


section \<open>C1: one attendance registration per identity and session\<close>

lemmas evaluar_reconocer =
  reconocer_rostro_def decode_image_def detectar_rostro_def quitar_cabecera_def
  rostro_reconocimiento_def recortar_def py_index_def registro_unico_def
  entorno_prueba_def rellenar_def predecir_def parche_def servicio_ana_def

text \<open>
  Claim C1. In every sequence of recognition calls on one service object, whatever the
  environment does at each call, the attendance notifier is called at most once with any given
  name. Moreover, when a name without a session entry is recognised at \<open>t0\<close>, again at
  \<open>t1\<close> before the window has passed and again at \<open>t2\<close> with \<open>t2 - t0\<close> at least the
  window, the first two calls do not notify, the third notifies exactly that name, and no
  later call of the session notifies it again. The scenario of the specification (window 2,
  recognitions at 0, 1 and 2.5) is the witness.
\<close>

theorem notificador_una_vez_por_sesion:
  "count_list (sesion s peticiones) nombre \<le> 1 \<and>
   (tiempos_reconocimiento s nombre = None \<and> nombre \<notin> estudiantes_reconocidos s \<and>
    reconocer_rostro e1 s i1 t0 = (Inr (Reconocido nombre c1 b1), s1, l1) \<and>
    reconocer_rostro e2 s1 i2 t1 = (Inr (Reconocido nombre c2 b2), s2, l2) \<and>
    reconocer_rostro e3 s2 i3 t2 = (Inr (Reconocido nombre c3 b3), s3, l3) \<and>
    t1 - t0 < duracion_reconocimiento s \<and> duracion_reconocimiento s \<le> t2 - t0
    \<longrightarrow> l1 = [] \<and> l2 = [] \<and> l3 = [nombre] \<and> count_list (sesion s3 resto) nombre = 0)"
proof (rule conjI)
  show "count_list (sesion s peticiones) nombre \<le> 1"
    using sesion_cuenta[of s peticiones nombre] by (simp split: if_splits)
next
  show "tiempos_reconocimiento s nombre = None \<and> nombre \<notin> estudiantes_reconocidos s \<and>
    reconocer_rostro e1 s i1 t0 = (Inr (Reconocido nombre c1 b1), s1, l1) \<and>
    reconocer_rostro e2 s1 i2 t1 = (Inr (Reconocido nombre c2 b2), s2, l2) \<and>
    reconocer_rostro e3 s2 i3 t2 = (Inr (Reconocido nombre c3 b3), s3, l3) \<and>
    t1 - t0 < duracion_reconocimiento s \<and> duracion_reconocimiento s \<le> t2 - t0
    \<longrightarrow> l1 = [] \<and> l2 = [] \<and> l3 = [nombre] \<and> count_list (sesion s3 resto) nombre = 0"
  proof (rule impI)
  assume h: "tiempos_reconocimiento s nombre = None \<and> nombre \<notin> estudiantes_reconocidos s \<and>
    reconocer_rostro e1 s i1 t0 = (Inr (Reconocido nombre c1 b1), s1, l1) \<and>
    reconocer_rostro e2 s1 i2 t1 = (Inr (Reconocido nombre c2 b2), s2, l2) \<and>
    reconocer_rostro e3 s2 i3 t2 = (Inr (Reconocido nombre c3 b3), s3, l3) \<and>
    t1 - t0 < duracion_reconocimiento s \<and> duracion_reconocimiento s \<le> t2 - t0"
  from h have u1: "registro_unico e1 s nombre t0 = (None, s1, l1)"
    by (blast intro: reconocido_registro_unico)
  from h have u2: "registro_unico e2 s1 nombre t1 = (None, s2, l2)"
    by (blast intro: reconocido_registro_unico)
  from h have u3: "registro_unico e3 s2 nombre t2 = (None, s3, l3)"
    by (blast intro: reconocido_registro_unico)
  from u1 h have p1: "l1 = []"
    and s1: "s1 = s\<lparr>tiempos_reconocimiento := (tiempos_reconocimiento s)(nombre \<mapsto> t0)\<rparr>"
    by (auto simp: registro_unico_def)
  from u2 h have p2: "l2 = []" and s2: "s2 = s1"
    by (auto simp: registro_unico_def s1 split: if_splits)
  from u3 h have p3: "l3 = [nombre]" and s3: "nombre \<in> estudiantes_reconocidos s3"
    by (auto simp: registro_unico_def s1 s2 split: if_splits)
  from sesion_cuenta[of s3 resto nombre] s3 have "count_list (sesion s3 resto) nombre = 0"
    by simp
  with p1 p2 p3 show "l1 = [] \<and> l2 = [] \<and> l3 = [nombre] \<and> count_list (sesion s3 resto) nombre = 0"
    by simp
  qed
qed

theorem notificador_una_vez_por_sesion_witness:
  "reconocer_rostro entorno_prueba servicio_ana ''a'' 0
     = (Inr (Reconocido ''ana'' 0 [0, 0, 1, 1]),
        servicio_ana\<lparr>tiempos_reconocimiento := [''ana'' \<mapsto> 0]\<rparr>, []) \<and>
   reconocer_rostro entorno_prueba (servicio_ana\<lparr>tiempos_reconocimiento := [''ana'' \<mapsto> 0]\<rparr>) ''a'' 1
     = (Inr (Reconocido ''ana'' 0 [0, 0, 1, 1]),
        servicio_ana\<lparr>tiempos_reconocimiento := [''ana'' \<mapsto> 0]\<rparr>, []) \<and>
   reconocer_rostro entorno_prueba (servicio_ana\<lparr>tiempos_reconocimiento := [''ana'' \<mapsto> 0]\<rparr>) ''a'' (5 / 2)
     = (Inr (Reconocido ''ana'' 0 [0, 0, 1, 1]),
        servicio_ana\<lparr>tiempos_reconocimiento := [''ana'' \<mapsto> 0],
                     estudiantes_reconocidos := {''ana''}\<rparr>, [''ana'']) \<and>
   count_list
     (sesion (servicio_ana\<lparr>tiempos_reconocimiento := [''ana'' \<mapsto> 0],
                           estudiantes_reconocidos := {''ana''}\<rparr>)
        [(entorno_prueba, ''a'', 3), (entorno_prueba, ''a'', 10)]) ''ana'' = 0"
proof -
  let ?s1 = "servicio_ana\<lparr>tiempos_reconocimiento := [''ana'' \<mapsto> 0]\<rparr>"
  let ?s3 = "servicio_ana\<lparr>tiempos_reconocimiento := [''ana'' \<mapsto> 0],
                     estudiantes_reconocidos := {''ana''}\<rparr>"
  have r1: "reconocer_rostro entorno_prueba servicio_ana ''a'' 0
     = (Inr (Reconocido ''ana'' 0 [0, 0, 1, 1]), ?s1, [])"
    by (simp add: evaluar_reconocer)
  have r2: "reconocer_rostro entorno_prueba ?s1 ''a'' 1
     = (Inr (Reconocido ''ana'' 0 [0, 0, 1, 1]), ?s1, [])"
    by (simp add: evaluar_reconocer)
  have r3: "reconocer_rostro entorno_prueba ?s1 ''a'' (5 / 2)
     = (Inr (Reconocido ''ana'' 0 [0, 0, 1, 1]), ?s3, [''ana''])"
    by (simp add: evaluar_reconocer)
  have h0: "tiempos_reconocimiento servicio_ana ''ana'' = None"
    "''ana'' \<notin> estudiantes_reconocidos servicio_ana"
    "(1::real) - 0 < duracion_reconocimiento servicio_ana"
    "duracion_reconocimiento servicio_ana \<le> 5 / 2 - 0"
    by (simp_all add: servicio_ana_def)
  from notificador_una_vez_por_sesion[of servicio_ana "[]" "''ana''" entorno_prueba "''a''" 0
      0 "[0, 0, 1, 1]" ?s1 "[]" entorno_prueba "''a''" 1 0 "[0, 0, 1, 1]" ?s1 "[]"
      entorno_prueba "''a''" "5 / 2" 0 "[0, 0, 1, 1]" ?s3 "[''ana'']"
      "[(entorno_prueba, ''a'', 3), (entorno_prueba, ''a'', 10)]"]
    r1 r2 r3 h0
  have "count_list (sesion ?s3 [(entorno_prueba, ''a'', 3), (entorno_prueba, ''a'', 10)]) ''ana'' = 0"
    by blast
  with r1 r2 r3 show ?thesis by blast
qed

section \<open>C5: no face exactly when the detector finds no box\<close>

lemma reconocer_con_rostro:
  assumes "decode_image env image_data = Inr frame"
      and "detectar_rostro env frame = Inr (gray, c # resto)"
  shows "fst (reconocer_rostro env s image_data now) \<noteq> Inr SinRostro"
proof -
  obtain x y w h where c: "c = (x, y, w, h)" by (cases c)
  show ?thesis
  proof (cases "rostro_reconocimiento env gray (x, y, w, h)")
    case (Inl e)
    with assms c show ?thesis by (simp add: reconocer_rostro_def)
  next
    case (Inr rostro)
    note n = this
    show ?thesis
    proof (cases "lbph_predict env (face_recognizer s) rostro")
      case (Inl e)
      with assms c n show ?thesis by (simp add: reconocer_rostro_def)
    next
      case (Inr lc)
      obtain label confianza where lc: "lc = (label, confianza)" by (cases lc)
      note p = Inr[unfolded lc]
      show ?thesis
      proof (cases "py_index (image_paths s) label")
        case (Inl e)
        with assms c n p show ?thesis by (simp add: reconocer_rostro_def Let_def)
      next
        case (Inr nombre)
        obtain eo s1 l1 where ru: "registro_unico env s nombre now = (eo, s1, l1)"
          by (cases "registro_unico env s nombre now")
        with assms c n p Inr show ?thesis
          by (cases eo) (simp_all add: reconocer_rostro_def Let_def)
      qed
    qed
  qed
qed

text \<open>
  Claim C5. For every image, service state and environment, \<open>reconocer_rostro\<close> returns
  the result \<^verbatim>\<open>{"estado": "sin_rostro"}\<close> exactly when the image was decoded and the detector
  returned an empty list of boxes for it.
\<close>

theorem sin_rostro_sii_sin_cajas:
  "fst (reconocer_rostro env s image_data now) = Inr SinRostro
   \<longleftrightarrow> (\<exists>frame gray. decode_image env image_data = Inr frame
                      \<and> detectar_rostro env frame = Inr (gray, []))"
proof (cases "decode_image env image_data")
  case (Inl e)
  then show ?thesis by (simp add: reconocer_rostro_def)
next
  case (Inr frame)
  note d = this
  show ?thesis
  proof (cases "detectar_rostro env frame")
    case (Inl e)
    with d show ?thesis by (simp add: reconocer_rostro_def)
  next
    case (Inr gf)
    obtain gray faces where gf: "gf = (gray, faces)" by (cases gf)
    note t = Inr[unfolded gf]
    show ?thesis
    proof (cases faces)
      case Nil
      with d t show ?thesis by (simp add: reconocer_rostro_def)
    next
      case (Cons c resto)
      with reconocer_con_rostro[OF d t[unfolded Cons]] d t show ?thesis by simp
    qed
  qed
qed

section \<open>C6: the decision is monotone in the acceptance threshold\<close>

lemma umbral_no_cambia:
  "decode_image (env\<lparr>cfg_confianza_threshold := t\<rparr>) = decode_image env"
  "detectar_rostro (env\<lparr>cfg_confianza_threshold := t\<rparr>) = detectar_rostro env"
  "rostro_reconocimiento (env\<lparr>cfg_confianza_threshold := t\<rparr>) = rostro_reconocimiento env"
  "registro_unico (env\<lparr>cfg_confianza_threshold := t\<rparr>) = registro_unico env"
proof -
  show "decode_image (env\<lparr>cfg_confianza_threshold := t\<rparr>) = decode_image env"
    by (rule ext) (simp add: decode_image_def split: sum.splits)
  show "detectar_rostro (env\<lparr>cfg_confianza_threshold := t\<rparr>) = detectar_rostro env"
    by (rule ext) (simp add: detectar_rostro_def split: option.splits)
  show "rostro_reconocimiento (env\<lparr>cfg_confianza_threshold := t\<rparr>) = rostro_reconocimiento env"
    by (intro ext) (simp add: rostro_reconocimiento_def)
  show "registro_unico (env\<lparr>cfg_confianza_threshold := t\<rparr>) = registro_unico env"
    by (intro ext) (simp add: registro_unico_def split: option.splits)
qed

text \<open>
  Either the call never reaches the threshold test and its outcome is the same for every
  threshold and is neither a recognition nor an unknown face, or it reaches the test with a
  fixed prediction and the threshold only chooses between a fixed outcome that is not
  "unknown" and the unknown result.
\<close>

lemma reconocer_decision:
  "(\<exists>X. (\<forall>n c b. fst X \<noteq> Inr (Reconocido n c b)) \<and> (\<forall>c b. fst X \<noteq> Inr (Desconocido c b))
        \<and> (\<forall>t. reconocer_rostro (env\<lparr>cfg_confianza_threshold := t\<rparr>) s image_data now = X))
   \<or> (\<exists>label confianza box R. (\<forall>c b. fst R \<noteq> Inr (Desconocido c b))
        \<and> (\<forall>t. reconocer_rostro (env\<lparr>cfg_confianza_threshold := t\<rparr>) s image_data now =
              (if confianza < t \<and> label < int (length (image_paths s)) then R
               else (Inr (Desconocido confianza box), s, []))))"
proof (cases "decode_image env image_data")
  case (Inl e)
  then have "\<forall>t. reconocer_rostro (env\<lparr>cfg_confianza_threshold := t\<rparr>) s image_data now = (Inl e, s, [])"
    by (simp add: reconocer_rostro_def umbral_no_cambia)
  then show ?thesis by (intro disjI1 exI[of _ "(Inl e, s, [])"]) simp
next
  case (Inr frame)
  note d = this
  show ?thesis
  proof (cases "detectar_rostro env frame")
    case (Inl e)
    with d have "\<forall>t. reconocer_rostro (env\<lparr>cfg_confianza_threshold := t\<rparr>) s image_data now = (Inl e, s, [])"
      by (simp add: reconocer_rostro_def umbral_no_cambia)
    then show ?thesis by (intro disjI1 exI[of _ "(Inl e, s, [])"]) simp
  next
    case (Inr gf)
    obtain gray faces where gf: "gf = (gray, faces)" by (cases gf)
    note t = Inr[unfolded gf]
    show ?thesis
    proof (cases faces)
      case Nil
      with d t have "\<forall>t. reconocer_rostro (env\<lparr>cfg_confianza_threshold := t\<rparr>) s image_data now
          = (Inr SinRostro, s, [])"
        by (simp add: reconocer_rostro_def umbral_no_cambia)
      then show ?thesis by (intro disjI1 exI[of _ "(Inr SinRostro, s, [])"]) simp
    next
      case (Cons c resto)
      obtain x y w h where c: "c = (x, y, w, h)" by (cases c)
      note f = Cons[unfolded c]
      show ?thesis
      proof (cases "rostro_reconocimiento env gray (x, y, w, h)")
        case (Inl e)
        with d t f have "\<forall>t. reconocer_rostro (env\<lparr>cfg_confianza_threshold := t\<rparr>) s image_data now
            = (Inl e, s, [])"
          by (simp add: reconocer_rostro_def umbral_no_cambia)
        then show ?thesis by (intro disjI1 exI[of _ "(Inl e, s, [])"]) simp
      next
        case (Inr rostro)
        note n = this
        show ?thesis
        proof (cases "lbph_predict env (face_recognizer s) rostro")
          case (Inl e)
          with d t f n have "\<forall>t. reconocer_rostro (env\<lparr>cfg_confianza_threshold := t\<rparr>) s image_data now
              = (Inl e, s, [])"
            by (simp add: reconocer_rostro_def umbral_no_cambia)
          then show ?thesis by (intro disjI1 exI[of _ "(Inl e, s, [])"]) simp
        next
          case (Inr lc)
          obtain label confianza where lc: "lc = (label, confianza)" by (cases lc)
          note p = Inr[unfolded lc]
          define R where "R =
             (case py_index (image_paths s) label of
                Inl e \<Rightarrow> (Inl e, s, [])
              | Inr nombre \<Rightarrow>
                  (case registro_unico env s nombre now of
                     (Some e, s', llamadas) \<Rightarrow> (Inl e, s', llamadas)
                   | (None, s', llamadas) \<Rightarrow>
                       (Inr (Reconocido nombre confianza [x, y, w, h]), s', llamadas)))"
          have R: "\<forall>c b. fst R \<noteq> Inr (Desconocido c b)"
            unfolding R_def by (auto split: sum.splits prod.splits option.splits)
          from d t f n p have "\<forall>t. reconocer_rostro (env\<lparr>cfg_confianza_threshold := t\<rparr>) s image_data now
              = (if confianza < t \<and> label < int (length (image_paths s)) then R
                 else (Inr (Desconocido confianza [x, y, w, h]), s, []))"
            by (simp add: reconocer_rostro_def umbral_no_cambia R_def Let_def cong: sum.case_cong)
          with R show ?thesis by blast
        qed
      qed
    qed
  qed
qed

text \<open>
  Claim C6. With everything but the acceptance threshold fixed (image, service state,
  environment, hence the predicted label and distance), lowering the threshold never turns
  the result "desconocido" into a recognition, and raising it never turns the result
  "reconocido" into another one: for \<open>t1 \<le> t2\<close>, unknown at \<open>t2\<close> is unknown at \<open>t1\<close>, and
  recognised at \<open>t1\<close> is recognised, with the same name, at \<open>t2\<close>.
\<close>

theorem umbral_monotono:
  assumes "t1 \<le> t2"
  shows "(fst (reconocer_rostro (env\<lparr>cfg_confianza_threshold := t2\<rparr>) s image_data now)
            = Inr (Desconocido c b)
          \<longrightarrow> fst (reconocer_rostro (env\<lparr>cfg_confianza_threshold := t1\<rparr>) s image_data now)
            = Inr (Desconocido c b))
       \<and> (fst (reconocer_rostro (env\<lparr>cfg_confianza_threshold := t1\<rparr>) s image_data now)
            = Inr (Reconocido n c b)
          \<longrightarrow> fst (reconocer_rostro (env\<lparr>cfg_confianza_threshold := t2\<rparr>) s image_data now)
            = Inr (Reconocido n c b))"
  using reconocer_decision[of env s image_data now]
proof (elim disjE exE conjE)
  fix X
  assume "\<forall>n c b. fst X \<noteq> Inr (Reconocido n c b)" "\<forall>c b. fst X \<noteq> Inr (Desconocido c b)"
    "\<forall>t. reconocer_rostro (env\<lparr>cfg_confianza_threshold := t\<rparr>) s image_data now = X"
  then show ?thesis by simp
next
  fix label confianza box R
  assume R: "\<forall>c b. fst R \<noteq> Inr (Desconocido c b)"
    and all: "\<forall>t. reconocer_rostro (env\<lparr>cfg_confianza_threshold := t\<rparr>) s image_data now =
              (if confianza < t \<and> label < int (length (image_paths s)) then R
               else (Inr (Desconocido confianza box), s, []))"
  show ?thesis
  proof (cases "label < int (length (image_paths s))")
    case False
    with all show ?thesis by simp
  next
    case True
    with all R assms show ?thesis by (auto split: if_splits)
  qed
qed

theorem umbral_monotono_witness:
  "(50::real) \<le> 70 \<and>
   fst (reconocer_rostro (entorno_prueba\<lparr>cfg_confianza_threshold := 50\<rparr>) servicio_ana ''a'' 0)
     = Inr (Reconocido ''ana'' 0 [0, 0, 1, 1]) \<and>
   fst (reconocer_rostro (entorno_prueba\<lparr>cfg_confianza_threshold := 70\<rparr>) servicio_ana ''a'' 0)
     = Inr (Reconocido ''ana'' 0 [0, 0, 1, 1]) \<and>
   fst (reconocer_rostro (entorno_prueba\<lparr>cfg_confianza_threshold := 70\<rparr>) servicio_ana ''b'' 0)
     = Inr (Desconocido 1000 [0, 0, 1, 1]) \<and>
   fst (reconocer_rostro (entorno_prueba\<lparr>cfg_confianza_threshold := 50\<rparr>) servicio_ana ''b'' 0)
     = Inr (Desconocido 1000 [0, 0, 1, 1])"
proof -
  have le: "(50::real) \<le> 70" by simp
  have a: "fst (reconocer_rostro (entorno_prueba\<lparr>cfg_confianza_threshold := 50\<rparr>) servicio_ana ''a'' 0)
     = Inr (Reconocido ''ana'' 0 [0, 0, 1, 1])"
    by (simp add: evaluar_reconocer)
  have b: "fst (reconocer_rostro (entorno_prueba\<lparr>cfg_confianza_threshold := 70\<rparr>) servicio_ana ''b'' 0)
     = Inr (Desconocido 1000 [0, 0, 1, 1])"
    by (simp add: evaluar_reconocer)
  from umbral_monotono[OF le, of entorno_prueba servicio_ana "''a''" 0 0 "[0, 0, 1, 1]" "''ana''"] a
  have a': "fst (reconocer_rostro (entorno_prueba\<lparr>cfg_confianza_threshold := 70\<rparr>) servicio_ana ''a'' 0)
     = Inr (Reconocido ''ana'' 0 [0, 0, 1, 1])"
    by blast
  from umbral_monotono[OF le, of entorno_prueba servicio_ana "''b''" 0 1000 "[0, 0, 1, 1]"] b
  have b': "fst (reconocer_rostro (entorno_prueba\<lparr>cfg_confianza_threshold := 50\<rparr>) servicio_ana ''b'' 0)
     = Inr (Desconocido 1000 [0, 0, 1, 1])"
    by blast
  from le a a' b b' show ?thesis by blast
qed


section \<open>C9: resetting the session\<close>

text \<open>
  Claim C9. \<open>reset_reconocimientos\<close> empties the set of registered students and the table of
  first-seen times and changes nothing else of the service object (classifier, identity list,
  label dictionary, next label; it has no access to the persisted artifact). After it, a name
  recognised at \<open>t0\<close> and again at \<open>t1\<close> with \<open>t1 - t0\<close> at least the window is notified at
  the second of these calls, exactly once, whether or not it was registered before the reset,
  and by no later call of the new session.
\<close>

theorem reset_abre_nueva_sesion:
  "estudiantes_reconocidos (reset_reconocimientos s) = {} \<and>
   tiempos_reconocimiento (reset_reconocimientos s) = Map.empty \<and>
   face_recognizer (reset_reconocimientos s) = face_recognizer s \<and>
   image_paths (reset_reconocimientos s) = image_paths s \<and>
   label_dict (reset_reconocimientos s) = label_dict s \<and>
   next_label (reset_reconocimientos s) = next_label s \<and>
   duracion_reconocimiento (reset_reconocimientos s) = duracion_reconocimiento s \<and>
   (reconocer_rostro e1 (reset_reconocimientos s) i1 t0 = (Inr (Reconocido nombre c1 b1), s1, l1) \<and>
    reconocer_rostro e2 s1 i2 t1 = (Inr (Reconocido nombre c2 b2), s2, l2) \<and>
    duracion_reconocimiento s \<le> t1 - t0
    \<longrightarrow> l1 = [] \<and> l2 = [nombre] \<and> count_list (sesion s2 resto) nombre = 0)"
proof -
  have frame: "estudiantes_reconocidos (reset_reconocimientos s) = {} \<and>
   tiempos_reconocimiento (reset_reconocimientos s) = Map.empty \<and>
   face_recognizer (reset_reconocimientos s) = face_recognizer s \<and>
   image_paths (reset_reconocimientos s) = image_paths s \<and>
   label_dict (reset_reconocimientos s) = label_dict s \<and>
   next_label (reset_reconocimientos s) = next_label s \<and>
   duracion_reconocimiento (reset_reconocimientos s) = duracion_reconocimiento s"
    by (simp add: reset_reconocimientos_def)
  have again: "l1 = [] \<and> l2 = [nombre] \<and> count_list (sesion s2 resto) nombre = 0"
    if h1: "reconocer_rostro e1 (reset_reconocimientos s) i1 t0 = (Inr (Reconocido nombre c1 b1), s1, l1)"
    and h2: "reconocer_rostro e2 s1 i2 t1 = (Inr (Reconocido nombre c2 b2), s2, l2)"
    and h3: "duracion_reconocimiento s \<le> t1 - t0"
  proof -
    let ?r = "reset_reconocimientos s"
    from h1 have u1: "registro_unico e1 ?r nombre t0 = (None, s1, l1)"
      by (rule reconocido_registro_unico)
    from h2 have u2: "registro_unico e2 s1 nombre t1 = (None, s2, l2)"
      by (rule reconocido_registro_unico)
    from u1 have p1: "l1 = []"
      and s1: "s1 = ?r\<lparr>tiempos_reconocimiento := (tiempos_reconocimiento ?r)(nombre \<mapsto> t0)\<rparr>"
      by (auto simp: registro_unico_def reset_reconocimientos_def)
    from u2 h3 have p2: "l2 = [nombre]" and s2: "nombre \<in> estudiantes_reconocidos s2"
      by (auto simp: registro_unico_def s1 reset_reconocimientos_def split: if_splits)
    from sesion_cuenta[of s2 resto nombre] s2 have "count_list (sesion s2 resto) nombre = 0"
      by simp
    with p1 p2 show ?thesis by simp
  qed
  from frame again show ?thesis by blast
qed

theorem reset_abre_nueva_sesion_witness:
  "reconocer_rostro entorno_prueba
      (reset_reconocimientos (servicio_ana\<lparr>tiempos_reconocimiento := [''ana'' \<mapsto> 0],
                                            estudiantes_reconocidos := {''ana''}\<rparr>)) ''a'' 10
     = (Inr (Reconocido ''ana'' 0 [0, 0, 1, 1]),
        servicio_ana\<lparr>tiempos_reconocimiento := [''ana'' \<mapsto> 10]\<rparr>, []) \<and>
   reconocer_rostro entorno_prueba (servicio_ana\<lparr>tiempos_reconocimiento := [''ana'' \<mapsto> 10]\<rparr>)
      ''a'' (25 / 2)
     = (Inr (Reconocido ''ana'' 0 [0, 0, 1, 1]),
        servicio_ana\<lparr>tiempos_reconocimiento := [''ana'' \<mapsto> 10],
                     estudiantes_reconocidos := {''ana''}\<rparr>, [''ana'']) \<and>
   count_list
     (sesion (servicio_ana\<lparr>tiempos_reconocimiento := [''ana'' \<mapsto> 10],
                           estudiantes_reconocidos := {''ana''}\<rparr>)
        [(entorno_prueba, ''a'', 13), (entorno_prueba, ''a'', 20)]) ''ana'' = 0"
proof -
  let ?s0 = "servicio_ana\<lparr>tiempos_reconocimiento := [''ana'' \<mapsto> 0],
                          estudiantes_reconocidos := {''ana''}\<rparr>"
  let ?s1 = "servicio_ana\<lparr>tiempos_reconocimiento := [''ana'' \<mapsto> 10]\<rparr>"
  let ?s2 = "servicio_ana\<lparr>tiempos_reconocimiento := [''ana'' \<mapsto> 10],
                     estudiantes_reconocidos := {''ana''}\<rparr>"
  have r1: "reconocer_rostro entorno_prueba (reset_reconocimientos ?s0) ''a'' 10
     = (Inr (Reconocido ''ana'' 0 [0, 0, 1, 1]), ?s1, [])"
    by (simp add: evaluar_reconocer reset_reconocimientos_def)
  have r2: "reconocer_rostro entorno_prueba ?s1 ''a'' (25 / 2)
     = (Inr (Reconocido ''ana'' 0 [0, 0, 1, 1]), ?s2, [''ana''])"
    by (simp add: evaluar_reconocer)
  have h: "duracion_reconocimiento ?s0 \<le> 25 / 2 - 10"
    by (simp add: servicio_ana_def)
  from reset_abre_nueva_sesion[of ?s0 entorno_prueba "''a''" 10 "''ana''" 0 "[0, 0, 1, 1]" ?s1 "[]"
      entorno_prueba "''a''" "25 / 2" 0 "[0, 0, 1, 1]" ?s2 "[''ana'']"
      "[(entorno_prueba, ''a'', 13), (entorno_prueba, ''a'', 20)]"] r1 r2 h
  have "count_list (sesion ?s2 [(entorno_prueba, ''a'', 13), (entorno_prueba, ''a'', 20)]) ''ana'' = 0"
    by blast
  with r1 r2 show ?thesis by blast
qed

section \<open>C4: one normalisation for enrolment and recognition\<close>






section \<open>C10: a failed enrolment leaves its directory behind\<close>










section \<open>C3: the registry invariant\<close>

lemma update_nuevo:
  "k \<notin> fst ` set al \<Longrightarrow> AList.update k v al = al @ [(k, v)]"
  by (induction al) auto

lemma dict_enumerate_aux:
  "distinct (map fst al @ names) \<Longrightarrow>
   fold (\<lambda>p dic. AList.update (snd p) (int (fst p)) dic) (enumerate n names) al
     = al @ zip names (map int [n..<n + length names])"
proof (induction names arbitrary: n al)
  case Nil
  then show ?case by simp
next
  case (Cons a names)
  from Cons.prems have a: "a \<notin> fst ` set al" by auto
  from Cons.prems have d: "distinct (map fst (al @ [(a, int n)]) @ names)" by auto
  have "[n..<n + length (a # names)] = n # [Suc n..<Suc n + length names]"
    by (simp add: upt_rec)
  with Cons.IH[OF d, of "Suc n"] a show ?case
    by (simp add: update_nuevo)
qed

lemma dict_enumerate_zip:
  "distinct names \<Longrightarrow> dict_enumerate names = zip names (map int [0..<length names])"
  using dict_enumerate_aux[of "[]" names 0] by (simp add: dict_enumerate_def)

lemma registro_ok_enumerate:
  assumes "distinct names"
  shows "registro_ok (s\<lparr>face_recognizer := c, image_paths := names,
            label_dict := dict_enumerate names, next_label := int (length names)\<rparr>)"
  using assms by (simp add: registro_ok_def dict_enumerate_zip)

lemma registro_ok_asignar:
  assumes "registro_ok s"
  shows "registro_ok (asignar_etiqueta s estudiante)"
proof (cases "map_of (label_dict s) estudiante = None")
  case False
  with assms show ?thesis by (auto simp add: asignar_etiqueta_def)
next
  case True
  then have n: "estudiante \<notin> fst ` set (label_dict s)" by (simp add: map_of_eq_None_iff)
  with assms have "estudiante \<notin> set (image_paths s)"
    by (metis registro_ok_def set_map)
  with assms True n show ?thesis
    by (simp add: asignar_etiqueta_def registro_ok_def update_nuevo)
qed

lemma registro_ok_recognizer [simp]:
  "registro_ok (s\<lparr>face_recognizer := c\<rparr>) = registro_ok s"
  by (simp add: registro_ok_def)

lemma set_update_sub: "set (AList.update k v al) \<subseteq> insert (k, v) (set al)"
  by (induction al) auto

lemma set_delete_sub: "set (AList.delete k al) \<subseteq> set al"
  by (induction al) auto

lemma directorio_ok_update:
  assumes "directorio_ok d" "nodo_ok v"
  shows "directorio_ok (AList.update k v d)"
proof -
  from assms have "distinct (map fst (AList.update k v d))"
    by (simp add: directorio_ok_def distinct_update)
  moreover from assms set_update_sub[of k v d]
  have "list_all (\<lambda>e. nodo_ok (snd e)) (AList.update k v d)"
    by (auto simp: directorio_ok_def list_all_iff)
  ultimately show ?thesis by (simp add: directorio_ok_def)
qed

lemma directorio_ok_delete:
  assumes "directorio_ok d"
  shows "directorio_ok (AList.delete k d)"
proof -
  from assms have "distinct (map fst (AList.delete k d))"
    by (simp add: directorio_ok_def distinct_delete)
  moreover from assms set_delete_sub[of k d]
  have "list_all (\<lambda>e. nodo_ok (snd e)) (AList.delete k d)"
    by (auto simp: directorio_ok_def list_all_iff)
  ultimately show ?thesis by (simp add: directorio_ok_def)
qed

lemma directorio_ok_lookup:
  assumes "directorio_ok d" "map_of d k = Some v"
  shows "nodo_ok v"
proof -
  from assms(2) have "(k, v) \<in> set d" by (rule map_of_SomeD)
  with assms(1) show ?thesis by (auto simp: directorio_ok_def list_all_iff)
qed

lemma directorio_ok_makedirs:
  assumes "directorio_ok d" "makedirs env d nombre = Inr d1"
  shows "directorio_ok d1"
  using assms
  by (auto simp: makedirs_def directorio_ok_def map_of_eq_None_iff
        split: if_splits option.splits nodo.splits)

lemma directorio_ok_imwrite:
  assumes "directorio_ok d"
  shows "directorio_ok (imwrite env d nombre filename rostro)"
proof (cases "\<not> imwrite_ok env nombre filename")
  case True
  with assms show ?thesis by (simp add: imwrite_def)
next
  case False
  note w = this
  show ?thesis
  proof (cases "nombre = [] \<or> nombre = ''.''")
    case True
    have "nodo_ok (Archivo (Some (codec_jpg env rostro)))" by simp
    with assms have "directorio_ok
        (AList.update filename (Archivo (Some (codec_jpg env rostro))) d)"
      by (rule directorio_ok_update)
    with assms w True show ?thesis
      by (auto simp add: imwrite_def split: option.splits nodo.splits)
  next
    case False
    note n = this
    show ?thesis
    proof (cases "map_of d nombre")
      case None
      with assms w n show ?thesis by (simp add: imwrite_def)
    next
      case (Some v)
      show ?thesis
      proof (cases v)
        case (Archivo a)
        with Some assms w n show ?thesis by (simp add: imwrite_def)
      next
        case (Carpeta fs)
        with Some assms have "nodo_ok (Carpeta fs)" by (blast intro: directorio_ok_lookup)
        then have "nodo_ok (Carpeta (AList.update filename (Some (codec_jpg env rostro)) fs))"
          by (simp add: distinct_update)
        with assms Some Carpeta w n show ?thesis
          by (simp add: imwrite_def directorio_ok_update)
      qed
    qed
  qed
qed

lemma directorio_ok_borrar_procesadas:
  assumes "directorio_ok d"
  shows "directorio_ok (borrar_procesadas d estudiante)"
proof (cases "map_of d estudiante")
  case None
  with assms show ?thesis by (simp add: borrar_procesadas_def)
next
  case (Some v)
  show ?thesis
  proof (cases v)
    case (Archivo a)
    with Some assms show ?thesis by (simp add: borrar_procesadas_def)
  next
    case (Carpeta fs)
    with Some assms have "nodo_ok (Carpeta fs)" by (blast intro: directorio_ok_lookup)
    then have "nodo_ok (Carpeta (filter (\<lambda>f. snd f = None) fs))"
      by (simp add: distinct_map_filter)
    with assms Some Carpeta show ?thesis
      by (simp add: borrar_procesadas_def Let_def directorio_ok_update directorio_ok_delete)
  qed
qed

lemma directorio_ok_borrar_personas:
  "directorio_ok d \<Longrightarrow> directorio_ok (borrar_personas d people_list)"
  unfolding borrar_personas_def
  by (induction people_list arbitrary: d) (simp_all add: directorio_ok_delete)

lemma personas_en_claves: "set (personas_en d) \<subseteq> fst ` set d"
  by (induction d rule: personas_en.induct) auto

lemma distinct_personas_en: "distinct (map fst d) \<Longrightarrow> distinct (personas_en d)"
proof (induction d rule: personas_en.induct)
  case (3 n fs r)
  with personas_en_claves[of r] show ?case by auto
qed simp_all

lemma entrenar_incremental_forma:
  "snd (entrenar_incremental env s m estudiante) = (s, m)
   \<or> (\<exists>c art d. snd (entrenar_incremental env s m estudiante)
          = ((asignar_etiqueta s estudiante)\<lparr>face_recognizer := c\<rparr>, m\<lparr>modelo := art, datos := d\<rparr>)
        \<and> (d = datos m \<or> d = borrar_procesadas (datos m) estudiante))"
proof (cases "map_of (datos m) estudiante")
  case None
  then show ?thesis by (simp add: entrenar_incremental_def)
next
  case (Some nodo)
  note n = this
  let ?s1 = "asignar_etiqueta s estudiante"
  have same: "(?s1, m) = (?s1\<lparr>face_recognizer := face_recognizer ?s1\<rparr>,
                          m\<lparr>modelo := modelo m, datos := datos m\<rparr>)"
    by simp
  show ?thesis
  proof (cases "map_of (label_dict ?s1) estudiante")
    case None
    with n have "snd (entrenar_incremental env s m estudiante) = (?s1, m)"
      by (simp add: entrenar_incremental_def Let_def)
    with same show ?thesis by metis
  next
    case (Some label)
    note l = this
    show ?thesis
    proof (cases nodo)
      case (Archivo a)
      with n l have "snd (entrenar_incremental env s m estudiante) = (?s1, m)"
        by (simp add: entrenar_incremental_def Let_def)
      with same show ?thesis by metis
    next
      case (Carpeta fs)
      note k = this
      show ?thesis
      proof (cases "map snd (legibles fs) = []")
        case True
        with n l k have "snd (entrenar_incremental env s m estudiante) = (?s1, m)"
          by (simp add: entrenar_incremental_def Let_def)
        with same show ?thesis by metis
      next
        case False
        obtain eo c art where e: "entrenar_o_actualizar env (face_recognizer ?s1) (modelo m)
            (map snd (legibles fs)) (map (\<lambda>r. label) (legibles fs)) = (eo, c, art)"
          by (cases "entrenar_o_actualizar env (face_recognizer ?s1) (modelo m)
            (map snd (legibles fs)) (map (\<lambda>r. label) (legibles fs))")
        show ?thesis
        proof (cases eo)
          case None
          with n l k False e have "snd (entrenar_incremental env s m estudiante)
             = (?s1\<lparr>face_recognizer := c\<rparr>,
                m\<lparr>modelo := art, datos := borrar_procesadas (datos m) estudiante\<rparr>)"
            by (simp add: entrenar_incremental_def Let_def)
          then show ?thesis by blast
        next
          case (Some ex)
          with n l k False e have "snd (entrenar_incremental env s m estudiante)
             = (?s1\<lparr>face_recognizer := c\<rparr>, m\<lparr>modelo := art, datos := datos m\<rparr>)"
            by (simp add: entrenar_incremental_def Let_def)
          then show ?thesis by blast
        qed
      qed
    qed
  qed
qed

lemma entrenar_modelo_completo_forma:
  "snd (entrenar_modelo_completo env s m) = (s, m)
   \<or> (\<exists>c. snd (entrenar_modelo_completo env s m) = (s\<lparr>face_recognizer := c\<rparr>, m))
   \<or> (\<exists>c d art. snd (entrenar_modelo_completo env s m)
          = (s\<lparr>face_recognizer := c, image_paths := personas_en (datos m),
               label_dict := dict_enumerate (personas_en (datos m)),
               next_label := int (length (personas_en (datos m)))\<rparr>,
             m\<lparr>modelo := art, datos := d\<rparr>)
        \<and> (d = datos m \<or> d = borrar_personas (datos m) (personas_en (datos m))))"
proof (cases "personas_en (datos m) = []")
  case True
  then show ?thesis by (simp add: entrenar_modelo_completo_def)
next
  case False
  note p = this
  let ?P = "personas_en (datos m)"
  let ?F = "map fst (cargar_todas (datos m) ?P 0)"
  let ?L = "map snd (cargar_todas (datos m) ?P 0)"
  show ?thesis
  proof (cases "?F = []")
    case True
    with p show ?thesis by (simp add: entrenar_modelo_completo_def Let_def)
  next
    case False
    note f = this
    show ?thesis
    proof (cases "lbph_train env (lbph_create env) ?F ?L")
      case (Inl e)
      with p f have "snd (entrenar_modelo_completo env s m) = (s\<lparr>face_recognizer := lbph_create env\<rparr>, m)"
        by (simp add: entrenar_modelo_completo_def Let_def)
      then show ?thesis by blast
    next
      case (Inr c1)
      let ?s' = "s\<lparr>face_recognizer := c1, image_paths := ?P,
               label_dict := dict_enumerate ?P, next_label := int (length ?P)\<rparr>"
      show ?thesis
      proof (cases "lbph_write env c1")
        case None
        with p f Inr have "snd (entrenar_modelo_completo env s m)
            = (?s', m\<lparr>modelo := Some c1, datos := borrar_personas (datos m) ?P\<rparr>)"
          by (simp add: entrenar_modelo_completo_def Let_def)
        then show ?thesis by blast
      next
        case (Some e)
        with p f Inr have "snd (entrenar_modelo_completo env s m)
            = (?s', m\<lparr>modelo := modelo m, datos := datos m\<rparr>)"
          by (simp add: entrenar_modelo_completo_def Let_def)
        then show ?thesis by blast
      qed
    qed
  qed
qed

lemma directorio_ok_guardar_foto:
  assumes "directorio_ok (datos m)"
  shows "directorio_ok (datos (snd (guardar_foto_registro env m estudiante foto now)))"
proof (cases "makedirs env (datos m) (splitext_root (basename estudiante))")
  case (Inl e)
  with assms show ?thesis by (simp add: guardar_foto_registro_def Let_def)
next
  case (Inr d1)
  note mk = this
  with assms have d1: "directorio_ok d1" by (blast intro: directorio_ok_makedirs)
  show ?thesis
  proof (cases "decodificar_foto env foto")
    case (Inl e)
    with mk d1 show ?thesis by (simp add: guardar_foto_registro_def Let_def)
  next
    case (Inr img)
    note i = this
    show ?thesis
    proof (cases "detectar_rostro env img")
      case (Inl e)
      with mk d1 i show ?thesis by (simp add: guardar_foto_registro_def Let_def)
    next
      case (Inr gf)
      obtain gray faces where gf: "gf = (gray, faces)" by (cases gf)
      note t = Inr[unfolded gf]
      show ?thesis
      proof (cases faces)
        case Nil
        with mk d1 i t show ?thesis by (simp add: guardar_foto_registro_def Let_def)
      next
        case (Cons b resto)
        obtain x y w h where b: "b = (x, y, w, h)" by (cases b)
        note f = Cons[unfolded b]
        show ?thesis
        proof (cases "rostro_registro env gray (x, y, w, h)")
          case (Inl e)
          with mk d1 i t f show ?thesis by (simp add: guardar_foto_registro_def Let_def)
        next
          case (Inr rostro)
          with mk i t f directorio_ok_imwrite[OF d1] show ?thesis
            by (simp add: guardar_foto_registro_def Let_def)
        qed
      qed
    qed
  qed
qed

lemma estado_ok_incremental:
  assumes "estado_ok (s, m)"
  shows "estado_ok (snd (entrenar_incremental env s m estudiante))"
  using entrenar_incremental_forma[of env s m estudiante] assms
  by (auto simp: estado_ok_def registro_ok_asignar directorio_ok_borrar_procesadas)

lemma estado_ok_completo:
  assumes "estado_ok (s, m)"
  shows "estado_ok (snd (entrenar_modelo_completo env s m))"
proof -
  from assms have "distinct (personas_en (datos m))"
    by (simp add: estado_ok_def directorio_ok_def distinct_personas_en)
  then have "\<And>c. registro_ok (s\<lparr>face_recognizer := c, image_paths := personas_en (datos m),
               label_dict := dict_enumerate (personas_en (datos m)),
               next_label := int (length (personas_en (datos m)))\<rparr>)"
    by (rule registro_ok_enumerate)
  with entrenar_modelo_completo_forma[of env s m] assms show ?thesis
    by (auto simp: estado_ok_def directorio_ok_borrar_personas)
qed

lemma estado_ok_atender:
  assumes "estado_ok sm"
  shows "estado_ok (atender env sm p)"
proof -
  obtain s m where sm: "sm = (s, m)" by (cases sm)
  show ?thesis
  proof (cases p)
    case (Guardar_foto estudiante foto now)
    with assms sm show ?thesis by (simp add: estado_ok_def directorio_ok_guardar_foto)
  next
    case (Entrenar_incremental estudiante)
    with assms sm estado_ok_incremental[of s m env estudiante] show ?thesis by simp
  next
    case Entrenar_completo
    with assms sm estado_ok_completo[of s m env] show ?thesis by simp
  qed
qed

lemma estado_ok_atender_todas:
  "estado_ok sm \<Longrightarrow> estado_ok (atender_todas sm peticiones)"
proof (induction peticiones arbitrary: sm)
  case Nil
  then show ?case by simp
next
  case (Cons ep resto)
  obtain env p where ep: "ep = (env, p)" by (cases ep)
  from Cons.prems have "estado_ok (atender env sm p)" by (rule estado_ok_atender)
  then have "estado_ok (atender_todas (atender env sm p) resto)" by (rule Cons.IH)
  then show ?case by (simp add: ep)
qed

lemma registro_ok_inicializar:
  assumes "directorio_ok (datos m)"
  shows "registro_ok (inicializar env m)"
proof (cases "modelo m")
  case None
  then show ?thesis by (simp add: inicializar_def registro_ok_def)
next
  case (Some c)
  from assms have "distinct (map fst (datos m))" by (simp add: directorio_ok_def)
  with Some show ?thesis by (simp add: inicializar_def registro_ok_def dict_enumerate_zip)
qed

lemma registro_ok_indice:
  assumes "registro_ok s" "i < length (image_paths s)"
  shows "map_of (label_dict s) (image_paths s ! i) = Some (int i)"
proof -
  let ?n = "length (image_paths s)"
  from assms(1) have z: "label_dict s = zip (image_paths s) (map int [0..<?n])"
    by (metis registro_ok_def zip_map_fst_snd)
  from assms have "map_of (zip (image_paths s) (map int [0..<?n])) (image_paths s ! i)
      = Some (map int [0..<?n] ! i)"
    by (intro map_of_zip_nth) (simp_all add: registro_ok_def)
  with assms(2) z show ?thesis by simp
qed

text \<open>
  Claim C3. When the data directory lists no name twice, the service starts with a registry
  that satisfies \<open>registro_ok\<close>, and from any such registry every sequence of enrolment,
  incremental-training and full-training requests, under any behaviour of the environment and
  whether the requests succeed, fail or raise, ends in a registry that satisfies it: the
  identities are distinct, the labels are \<open>0, 1, ..., n - 1\<close> in the order of the identity list,
  the label of the identity at index \<open>i\<close> is \<open>i\<close>, and \<open>next_label\<close> is the length of the list.
\<close>

theorem registro_contiguo:
  assumes "directorio_ok (datos m)"
  shows "registro_ok (inicializar env0 m)
     \<and> (registro_ok s \<longrightarrow>
          registro_ok (fst (atender_todas (s, m) peticiones))
          \<and> (\<forall>i < length (image_paths (fst (atender_todas (s, m) peticiones))).
               map_of (label_dict (fst (atender_todas (s, m) peticiones)))
                 (image_paths (fst (atender_todas (s, m) peticiones)) ! i) = Some (int i)))"
proof (intro conjI impI)
  show "registro_ok (inicializar env0 m)" using assms by (rule registro_ok_inicializar)
next
  assume "registro_ok s"
  with assms have "estado_ok (s, m)" by (simp add: estado_ok_def)
  then have "estado_ok (atender_todas (s, m) peticiones)" by (rule estado_ok_atender_todas)
  then show r: "registro_ok (fst (atender_todas (s, m) peticiones))" by (simp add: estado_ok_def)
  then show "\<forall>i < length (image_paths (fst (atender_todas (s, m) peticiones))).
               map_of (label_dict (fst (atender_todas (s, m) peticiones)))
                 (image_paths (fst (atender_todas (s, m) peticiones)) ! i) = Some (int i)"
    by (simp add: registro_ok_indice)
qed

lemma completo_mundo_dos:
  "entrenar_modelo_completo entorno_prueba servicio_vacio mundo_dos
  = (Inr (Modelo_entrenado_completo 2 1),
     servicio_vacio\<lparr>face_recognizer := [(parche 97, 0)], image_paths := [''ana'', ''bob''],
        label_dict := [(''ana'', 0), (''bob'', 1)], next_label := 2\<rparr>,
     \<lparr>datos = [], modelo = Some [(parche 97, 0)]\<rparr>)"
  by (simp add: entrenar_modelo_completo_def mundo_dos_def servicio_vacio_def
      entorno_prueba_def borrar_personas_def dict_enumerate_def listdir_persona_def
      enumerate_eq_zip Let_def)


theorem registro_contiguo_witness:
  "directorio_ok (datos mundo_dos) \<and>
   inicializar entorno_prueba mundo_dos = servicio_vacio \<and>
   registro_ok servicio_vacio \<and>
   registro_ok (fst (atender_todas (servicio_vacio, mundo_dos)
                  [(entorno_prueba, Entrenar_incremental ''bob''),
                   (entorno_prueba, Entrenar_completo)])) \<and>
   image_paths (fst (atender_todas (servicio_vacio, mundo_dos) [(entorno_prueba, Entrenar_completo)]))
     = [''ana'', ''bob''] \<and>
   label_dict (fst (atender_todas (servicio_vacio, mundo_dos) [(entorno_prueba, Entrenar_completo)]))
     = [(''ana'', 0), (''bob'', 1)]"
proof -
  have d: "directorio_ok (datos mundo_dos)"
    by (simp add: directorio_ok_def mundo_dos_def)
  have i: "inicializar entorno_prueba mundo_dos = servicio_vacio"
    by (simp add: inicializar_def mundo_dos_def servicio_vacio_def entorno_prueba_def)
  from registro_contiguo[OF d, of entorno_prueba servicio_vacio] i
  have r0: "registro_ok servicio_vacio"
    and step: "\<And>ps. registro_ok (fst (atender_todas (servicio_vacio, mundo_dos) ps))"
    by simp_all
  have a: "registro_ok (fst (atender_todas (servicio_vacio, mundo_dos)
                  [(entorno_prueba, Entrenar_incremental ''bob''),
                   (entorno_prueba, Entrenar_completo)]))"
    by (rule step)
  have b: "image_paths (fst (atender_todas (servicio_vacio, mundo_dos) [(entorno_prueba, Entrenar_completo)]))
     = [''ana'', ''bob'']"
    by (simp add: completo_mundo_dos)
  have c: "label_dict (fst (atender_todas (servicio_vacio, mundo_dos) [(entorno_prueba, Entrenar_completo)]))
     = [(''ana'', 0), (''bob'', 1)]"
    by (simp add: completo_mundo_dos)
  from d i r0 a b c show ?thesis by (intro conjI)
qed


section \<open>C2: a failed incremental training changes the registry\<close>

text \<open>
  Claim C2 says that a training operation that returns a failure leaves the model state as it
  was. \<open>entrenar_incremental\<close> assigns the label (lines 196-199) before it looks for images
  (lines 208-217). On a service without identities and the empty holding directory of
  \<open>bob\<close>, it returns \<^verbatim>\<open>{"ok": False, "msg": "No hay imagenes para entrenar"}\<close>, and the
  identity list, the label dictionary and the next label have all changed.
\<close>

theorem incremental_fallido_cambia_registro:
  "entrenar_incremental entorno_prueba servicio_vacio mundo_dos ''bob''
     = (Inr (Fallo No_hay_imagenes_para_entrenar),
        servicio_vacio\<lparr>image_paths := [''bob''], label_dict := [(''bob'', 0)], next_label := 1\<rparr>,
        mundo_dos)
   \<and> image_paths (fst (snd (entrenar_incremental entorno_prueba servicio_vacio mundo_dos ''bob'')))
       \<noteq> image_paths servicio_vacio
   \<and> label_dict (fst (snd (entrenar_incremental entorno_prueba servicio_vacio mundo_dos ''bob'')))
       \<noteq> label_dict servicio_vacio
   \<and> next_label (fst (snd (entrenar_incremental entorno_prueba servicio_vacio mundo_dos ''bob'')))
       \<noteq> next_label servicio_vacio"
  by (simp add: entrenar_incremental_def mundo_dos_def servicio_vacio_def asignar_etiqueta_def)


section \<open>C7: a failed write triggers the train fallback\<close>

text \<open>
  Claim C7 says that only a classifier without prior state falls back from \<open>update\<close> to
  \<open>train\<close>, and that a persistence failure reaches the caller. The \<^verbatim>\<open>try\<close> block of lines
  220-226 holds both \<open>update\<close> and \<open>write\<close> under a bare \<^verbatim>\<open>except\<close>. Here the classifier
  knows \<open>ana\<close>, \<open>update\<close> with the photo of \<open>bob\<close> succeeds and the write of the updated
  classifier raises: the call retrains on the photo of \<open>bob\<close> alone, persists that, and
  returns success. The classifier and the artifact have forgotten \<open>ana\<close>.
\<close>

theorem fallo_de_escritura_dispara_train:
  "lbph_update entorno_disco_lleno (face_recognizer servicio_ana) [parche 98] [1]
     = Inr [(parche 97, 0), (parche 98, 1)]
   \<and> lbph_write entorno_disco_lleno [(parche 97, 0), (parche 98, 1)] = Some OSError
   \<and> entrenar_incremental entorno_disco_lleno servicio_ana mundo_bob ''bob''
     = (Inr (Modelo_entrenado 1),
        servicio_ana\<lparr>face_recognizer := [(parche 98, 1)], image_paths := [''ana'', ''bob''],
           label_dict := [(''ana'', 0), (''bob'', 1)], next_label := 2\<rparr>,
        \<lparr>datos = [], modelo = Some [(parche 98, 1)]\<rparr>)"
  by (simp add: entrenar_incremental_def mundo_bob_def servicio_ana_def asignar_etiqueta_def
      entrenar_o_actualizar_def entorno_disco_lleno_def entorno_prueba_def borrar_procesadas_def)

section \<open>C8: what a full retraining enumerates and labels\<close>

text \<open>
  Claim C8 says that an identity whose holding area has no readable image receives no label
  and no registry entry. With one photo of \<open>ana\<close> and an empty directory of \<open>bob\<close>, the full
  retraining succeeds and registers \<open>bob\<close> with label 1.
\<close>

theorem completo_etiqueta_carpeta_vacia:
  "legibles (listdir_persona (datos mundo_dos) ''bob'') = []
   \<and> fst (entrenar_modelo_completo entorno_prueba servicio_vacio mundo_dos)
       = Inr (Modelo_entrenado_completo 2 1)
   \<and> image_paths (fst (snd (entrenar_modelo_completo entorno_prueba servicio_vacio mundo_dos)))
       = [''ana'', ''bob'']
   \<and> map_of (label_dict (fst (snd (entrenar_modelo_completo entorno_prueba servicio_vacio mundo_dos))))
        ''bob'' = Some 1"
proof -
  have "legibles (listdir_persona (datos mundo_dos) ''bob'') = []"
    by (simp add: listdir_persona_def mundo_dos_def)
  then show ?thesis by (simp add: completo_mundo_dos)
qed


lemma cargar_todas_vacia:
  "cargar_todas d names label = []
   \<longleftrightarrow> list_all (\<lambda>n. legibles (listdir_persona d n) = []) names"
  by (induction names arbitrary: label) auto

lemma personas_en_filter:
  "personas_en d = map fst (filter (\<lambda>e. case snd e of Carpeta fs \<Rightarrow> True | Archivo a \<Rightarrow> False) d)"
  by (induction d rule: personas_en.induct) auto

text \<open>
  Claim C8, as amended. \<open>entrenar_modelo_completo\<close> enumerates every directory of the data
  directory, empty or not, in listing order. It fails with "No hay personas para entrenar"
  when there is none and with "No se encontraron imagenes" when none of them holds a readable
  image; in both cases the service and the world are unchanged. When it succeeds, the identity
  list is exactly the enumerated directories, each with its position as label, and
  \<open>next_label\<close> is their number: a directory without readable images receives a label and a
  registry entry like the others.
\<close>

theorem completo_reconstruye_registro:
  assumes "directorio_ok (datos m)"
  shows "personas_en (datos m)
           = map fst (filter (\<lambda>e. case snd e of Carpeta fs \<Rightarrow> True | Archivo a \<Rightarrow> False) (datos m))
     \<and> (personas_en (datos m) = []
          \<longrightarrow> entrenar_modelo_completo env s m = (Inr (Fallo No_hay_personas_para_entrenar), s, m))
     \<and> (personas_en (datos m) \<noteq> []
          \<and> list_all (\<lambda>n. legibles (listdir_persona (datos m) n) = []) (personas_en (datos m))
          \<longrightarrow> entrenar_modelo_completo env s m = (Inr (Fallo No_se_encontraron_imagenes), s, m))
     \<and> (fst (entrenar_modelo_completo env s m) = Inr r \<and> ok r
          \<longrightarrow> image_paths (fst (snd (entrenar_modelo_completo env s m))) = personas_en (datos m)
            \<and> label_dict (fst (snd (entrenar_modelo_completo env s m)))
                = zip (personas_en (datos m)) (map int [0..<length (personas_en (datos m))])
            \<and> next_label (fst (snd (entrenar_modelo_completo env s m)))
                = int (length (personas_en (datos m))))"
proof (intro conjI impI)
  let ?P = "personas_en (datos m)"
  let ?F = "map fst (cargar_todas (datos m) ?P 0)"
  let ?L = "map snd (cargar_todas (datos m) ?P 0)"
  show "?P = map fst (filter (\<lambda>e. case snd e of Carpeta fs \<Rightarrow> True | Archivo a \<Rightarrow> False) (datos m))"
    by (rule personas_en_filter)
  show "entrenar_modelo_completo env s m = (Inr (Fallo No_hay_personas_para_entrenar), s, m)"
    if "?P = []"
    using that by (simp add: entrenar_modelo_completo_def)
  show "entrenar_modelo_completo env s m = (Inr (Fallo No_se_encontraron_imagenes), s, m)"
    if "?P \<noteq> [] \<and> list_all (\<lambda>n. legibles (listdir_persona (datos m) n) = []) ?P"
  proof -
    from that have "cargar_todas (datos m) ?P 0 = []" by (simp add: cargar_todas_vacia)
    with that show ?thesis by (simp add: entrenar_modelo_completo_def Let_def)
  qed
  assume h: "fst (entrenar_modelo_completo env s m) = Inr r \<and> ok r"
  from assms have dist: "distinct ?P"
    by (simp add: directorio_ok_def distinct_personas_en)
  have reg: "image_paths (fst (snd (entrenar_modelo_completo env s m))) = ?P
      \<and> label_dict (fst (snd (entrenar_modelo_completo env s m))) = dict_enumerate ?P
      \<and> next_label (fst (snd (entrenar_modelo_completo env s m))) = int (length ?P)"
  proof (cases "?P = []")
    case True
    with h show ?thesis by (auto simp add: entrenar_modelo_completo_def)
  next
    case False
    note p = this
    show ?thesis
    proof (cases "?F = []")
      case True
      with p h show ?thesis by (auto simp add: entrenar_modelo_completo_def Let_def)
    next
      case False
      note f = this
      show ?thesis
      proof (cases "lbph_train env (lbph_create env) ?F ?L")
        case (Inl e)
        with p f h show ?thesis by (auto simp add: entrenar_modelo_completo_def Let_def)
      next
        case (Inr c1)
        with p f h show ?thesis
          by (cases "lbph_write env c1") (auto simp add: entrenar_modelo_completo_def Let_def)
      qed
    qed
  qed
  from reg show "image_paths (fst (snd (entrenar_modelo_completo env s m))) = ?P" by simp
  from reg dist show "label_dict (fst (snd (entrenar_modelo_completo env s m)))
                = zip ?P (map int [0..<length ?P])"
    by (simp add: dict_enumerate_zip)
  from reg show "next_label (fst (snd (entrenar_modelo_completo env s m))) = int (length ?P)"
    by simp
qed

theorem completo_reconstruye_registro_witness:
  "directorio_ok (datos mundo_dos) \<and>
   personas_en (datos mundo_dos) = [''ana'', ''bob''] \<and>
   fst (entrenar_modelo_completo entorno_prueba servicio_vacio mundo_dos)
     = Inr (Modelo_entrenado_completo 2 1) \<and>
   ok (Modelo_entrenado_completo 2 1) \<and>
   image_paths (fst (snd (entrenar_modelo_completo entorno_prueba servicio_vacio mundo_dos)))
     = personas_en (datos mundo_dos) \<and>
   label_dict (fst (snd (entrenar_modelo_completo entorno_prueba servicio_vacio mundo_dos)))
     = zip (personas_en (datos mundo_dos)) (map int [0..<length (personas_en (datos mundo_dos))]) \<and>
   personas_en (datos mundo_vacio) = [] \<and>
   entrenar_modelo_completo entorno_prueba servicio_vacio mundo_vacio
     = (Inr (Fallo No_hay_personas_para_entrenar), servicio_vacio, mundo_vacio)"
proof -
  have d: "directorio_ok (datos mundo_dos)"
    by (simp add: directorio_ok_def mundo_dos_def)
  have d0: "directorio_ok (datos mundo_vacio)"
    by (simp add: directorio_ok_def mundo_vacio_def)
  have p: "personas_en (datos mundo_dos) = [''ana'', ''bob'']"
    by (simp add: mundo_dos_def)
  have p0: "personas_en (datos mundo_vacio) = []"
    by (simp add: mundo_vacio_def)
  have r: "fst (entrenar_modelo_completo entorno_prueba servicio_vacio mundo_dos)
     = Inr (Modelo_entrenado_completo 2 1)"
    by (simp add: completo_mundo_dos)
  have k: "ok (Modelo_entrenado_completo 2 1)" by simp
  from completo_reconstruye_registro[OF d, of entorno_prueba servicio_vacio
         "Modelo_entrenado_completo 2 1"] r k
  have a: "image_paths (fst (snd (entrenar_modelo_completo entorno_prueba servicio_vacio mundo_dos)))
     = personas_en (datos mundo_dos)"
    and b: "label_dict (fst (snd (entrenar_modelo_completo entorno_prueba servicio_vacio mundo_dos)))
     = zip (personas_en (datos mundo_dos)) (map int [0..<length (personas_en (datos mundo_dos))])"
    by blast+
  from completo_reconstruye_registro[OF d0, of entorno_prueba servicio_vacio] p0
  have c: "entrenar_modelo_completo entorno_prueba servicio_vacio mundo_vacio
     = (Inr (Fallo No_hay_personas_para_entrenar), servicio_vacio, mundo_vacio)"
    by blast
  from d p r k a b p0 c show ?thesis by (intro conjI)
qed

end
